theory Spec2Isabelle
  imports Complex_Main "HOL-Library.Multiset"
begin

section \<open>Data model\<close>

text \<open>
  A JavaScript string is a sequence of UTF-16 code units. Code units are modelled as
  natural numbers, so that accented letters (\<open>0xF3\<close> for o-acute) and the combining marks
  of the NFD normal form (\<open>0x0300\<close> to \<open>0x036F\<close>) can both be written down. \<open>js\<close> turns an
  ASCII literal into such a string.
\<close>

type_synonym jsstring = "nat list"

definition js :: "string \<Rightarrow> jsstring" where
  "js s = map of_char s"

text \<open>\<open>types.ts\<close>: \<open>LotteryId\<close> and \<open>Animal\<close>. The fields \<open>emoji\<close> and \<open>imageUrl\<close> of an
  animal are carried along by every function and read by none; they are left out.\<close>

datatype LotteryId = GUACHARO | LOTTO_ACTIVO

record Animal =
  animal_id :: jsstring
  animal_name :: jsstring
  animal_number :: jsstring

text \<open>\<open>statisticalAnalysisService.ts\<close>: the records of the analyzer and of the scoring
  engine. A JavaScript number that holds a count is a \<open>nat\<close>, one that holds a day
  difference is an \<open>int\<close>, and a percentage or a score is a \<open>real\<close> (rounding of
  doubles is outside the model).\<close>

record HistoricalResult =
  hr_date :: jsstring
  hr_hour :: "jsstring option"
  hr_animal :: Animal
  animalNumber :: jsstring
  animalName :: jsstring

record FrequencyAnalysis =
  animalId :: jsstring
  fa_animal :: Animal
  totalAppearances :: nat
  totalFrequency :: real
  recentAppearances5 :: nat
  recentAppearances10 :: nat
  recentAppearances20 :: nat
  recentFrequency5 :: real
  recentFrequency10 :: real
  recentFrequency20 :: real
  daysSinceLastAppearance :: int
  lastAppearanceDate :: "jsstring option"
  isHot :: bool
  isCold :: bool

datatype Category = hot | warm | cold | frozen

datatype Confidence = alta | media | baja

record PredictionScore =
  ps_animalId :: jsstring
  ps_animal :: Animal
  score :: real
  rank :: nat
  frequencyTotal :: real
  frequencyRecent :: real
  ps_daysSinceLastAppearance :: int
  category :: Category
  explanation :: jsstring
  confidence :: Confidence

record Weights =
  w_recentFrequency :: real
  w_totalFrequency :: real
  w_daysSinceAppearance :: real

record AnalysisWindow =
  recent5 :: nat
  recent10 :: nat
  recent20 :: nat

record StatisticalPrediction =
  sp_lotteryId :: LotteryId
  analysisDate :: jsstring
  sp_totalResults :: nat
  analysisWindow :: AnalysisWindow
  top5 :: "PredictionScore list"
  top10 :: "PredictionScore list"
  hotAnimals :: "PredictionScore list"
  coldAnimals :: "PredictionScore list"
  allAnimals :: "PredictionScore list"
  sp_weights :: Weights

section \<open>Entity catalog\<close>

text \<open>
  The lookup table of \<open>findAnimalByNumber\<close> (\<open>realResultsService.ts\<close>): every entry has
  its key as \<open>id\<close> and as \<open>number\<close>. Accented letters are written as code units.
\<close>

definition mkAnimal :: "jsstring \<Rightarrow> jsstring \<Rightarrow> Animal" where
  "mkAnimal num nm = \<lparr> animal_id = num, animal_name = nm, animal_number = num \<rparr>"

definition animalMap :: "(jsstring \<times> Animal) list" where
  "animalMap =
     [
      (js ''00'', mkAnimal (js ''00'') (js ''Delf'' @ [237] @ js ''n'')),
      (js ''01'', mkAnimal (js ''01'') (js ''Carnero'')),
      (js ''02'', mkAnimal (js ''02'') (js ''Toro'')),
      (js ''03'', mkAnimal (js ''03'') (js ''Ciempi'' @ [233] @ js ''s'')),
      (js ''04'', mkAnimal (js ''04'') (js ''Alacr'' @ [225] @ js ''n'')),
      (js ''05'', mkAnimal (js ''05'') (js ''Le'' @ [243] @ js ''n'')),
      (js ''06'', mkAnimal (js ''06'') (js ''Rana'')),
      (js ''07'', mkAnimal (js ''07'') (js ''Perico'')),
      (js ''08'', mkAnimal (js ''08'') (js ''Rat'' @ [243] @ js ''n'')),
      (js ''09'', mkAnimal (js ''09'') ([193] @ js ''guila'')),
      (js ''10'', mkAnimal (js ''10'') (js ''Tigre'')),
      (js ''11'', mkAnimal (js ''11'') (js ''Gato'')),
      (js ''12'', mkAnimal (js ''12'') (js ''Caballo'')),
      (js ''13'', mkAnimal (js ''13'') (js ''Mono'')),
      (js ''14'', mkAnimal (js ''14'') (js ''Paloma'')),
      (js ''15'', mkAnimal (js ''15'') (js ''Zorro'')),
      (js ''16'', mkAnimal (js ''16'') (js ''Oso'')),
      (js ''17'', mkAnimal (js ''17'') (js ''Pavo'')),
      (js ''18'', mkAnimal (js ''18'') (js ''Burro'')),
      (js ''19'', mkAnimal (js ''19'') (js ''Chivo'')),
      (js ''20'', mkAnimal (js ''20'') (js ''Cochino'')),
      (js ''21'', mkAnimal (js ''21'') (js ''Gallo'')),
      (js ''22'', mkAnimal (js ''22'') (js ''Camello'')),
      (js ''23'', mkAnimal (js ''23'') (js ''Cebra'')),
      (js ''24'', mkAnimal (js ''24'') (js ''Iguana'')),
      (js ''25'', mkAnimal (js ''25'') (js ''Gallina'')),
      (js ''26'', mkAnimal (js ''26'') (js ''Vaca'')),
      (js ''27'', mkAnimal (js ''27'') (js ''Perro'')),
      (js ''28'', mkAnimal (js ''28'') (js ''Zamuro'')),
      (js ''29'', mkAnimal (js ''29'') (js ''Elefante'')),
      (js ''30'', mkAnimal (js ''30'') (js ''Caim'' @ [225] @ js ''n'')),
      (js ''31'', mkAnimal (js ''31'') (js ''Lapa'')),
      (js ''32'', mkAnimal (js ''32'') (js ''Ardilla'')),
      (js ''33'', mkAnimal (js ''33'') (js ''Pescado'')),
      (js ''34'', mkAnimal (js ''34'') (js ''Venado'')),
      (js ''35'', mkAnimal (js ''35'') (js ''Jirafa'')),
      (js ''36'', mkAnimal (js ''36'') (js ''Culebra''))
     ]"

text \<open>
  \<open>animalMap\<close> is an object literal, so \<open>animalMap[number]\<close> also finds the properties
  the object inherits from \<open>Object.prototype\<close>: under the names below it is a function
  (under \<open>__proto__\<close> the prototype object itself), which is truthy and is no
  \<open>Animal\<close>: it has no \<open>id\<close>, no \<open>number\<close> and no \<open>name\<close>. \<open>TableValue\<close> is what the
  lookup can give; no key of the table is an inherited name.
\<close>

datatype TableValue = TableAnimal Animal | InheritedProperty jsstring

definition objectPrototypeNames :: "jsstring list" where
  "objectPrototypeNames =
     [js ''constructor'', js ''__defineGetter__'', js ''__defineSetter__'',
      js ''hasOwnProperty'', js ''__lookupGetter__'', js ''__lookupSetter__'',
      js ''isPrototypeOf'', js ''propertyIsEnumerable'', js ''toString'', js ''valueOf'',
      js ''__proto__'', js ''toLocaleString'']"

text \<open>\<open>animalMap[number] || null\<close>; \<open>None\<close> is \<open>null\<close>.\<close>

definition findAnimalByNumber :: "jsstring \<Rightarrow> TableValue option" where
  "findAnimalByNumber num =
    (case map_of animalMap num of
       Some a \<Rightarrow> Some (TableAnimal a)
     | None \<Rightarrow>
         if num \<in> set objectPrototypeNames then Some (InheritedProperty num) else None)"

text \<open>
  Modelled from the spec: \<open>ANIMALS\<close> of \<open>constants.ts\<close>, the catalog, is not among the
  sources. The spec fixes 37 entities with the unique codes 00 to 36; the names are
  those of the table of \<open>findAnimalByNumber\<close>, which stands in for the catalog by its own
  comment.
\<close>

definition ANIMALS :: "Animal list" where
  "ANIMALS = map snd animalMap"

section \<open>Platform functions\<close>

text \<open>
  \<open>Array.prototype.sort\<close> with a comparator. \<open>after a b\<close> stands for
  \<open>compare(a, b) > 0\<close>: the comparator asks for \<open>a\<close> to come after \<open>b\<close>. ECMAScript
  requires the sort to be stable, and for a consistent comparator the stable sorted
  arrangement is unique; insertion from the right computes it.
\<close>

fun insertSorted :: "('a \<Rightarrow> 'a \<Rightarrow> bool) \<Rightarrow> 'a \<Rightarrow> 'a list \<Rightarrow> 'a list" where
  "insertSorted after x [] = [x]"
| "insertSorted after x (y # ys) =
     (if after x y then y # insertSorted after x ys else x # y # ys)"

definition jsSort :: "('a \<Rightarrow> 'a \<Rightarrow> bool) \<Rightarrow> 'a list \<Rightarrow> 'a list" where
  "jsSort after xs = foldr (insertSorted after) xs []"

text \<open>\<open>xs.slice(-w)\<close>: the last \<open>w\<close> elements, the whole array when it is shorter.\<close>

definition sliceLast :: "nat \<Rightarrow> 'a list \<Rightarrow> 'a list" where
  "sliceLast w xs = drop (length xs - w) xs"

text \<open>\<open>Math.max(...xs)\<close>; \<open>None\<close> is the \<open>-Infinity\<close> of the empty argument list.\<close>

fun Math_max :: "real list \<Rightarrow> real option" where
  "Math_max [] = None"
| "Math_max (x # xs) = Some (fold max xs x)"

text \<open>The test \<open>m > 0\<close> on such a maximum (\<open>-Infinity\<close> is not positive).\<close>

definition positive :: "real option \<Rightarrow> bool" where
  "positive m = (case m of None \<Rightarrow> False | Some v \<Rightarrow> v > 0)"

text \<open>\<open>xs.join(sep)\<close> on an array of strings.\<close>

definition joinWith :: "jsstring \<Rightarrow> jsstring list \<Rightarrow> jsstring" where
  "joinWith sep xs = (case xs of [] \<Rightarrow> [] | y # ys \<Rightarrow> y @ concat (map (\<lambda>z. sep @ z) ys))"

text \<open>
  \<open>new Date(s).getTime()\<close> for a date-only ISO string \<open>YYYY-MM-DD\<close>, which ECMAScript
  reads as midnight UTC: the milliseconds since the epoch, by the usual count of days
  of the proleptic Gregorian calendar. The analyzer takes the function as a parameter;
  this instance serves the dates the history store writes. A string of another shape
  (an invalid date, \<open>NaN\<close> in JavaScript) is outside the model.
\<close>

definition parseDigits :: "jsstring \<Rightarrow> int" where
  "parseDigits s = foldl (\<lambda>acc c. acc * 10 + (int c - 48)) 0 s"

definition daysFromCivil :: "int \<Rightarrow> int \<Rightarrow> int \<Rightarrow> int" where
  "daysFromCivil y m d =
    (let y' = (if m \<le> 2 then y - 1 else y);
         era = y' div 400;
         yoe = y' - era * 400;
         mp = (m + 9) mod 12;
         doy = (153 * mp + 2) div 5 + d - 1;
         doe = yoe * 365 + yoe div 4 - yoe div 100 + doy
     in era * 146097 + doe - 719468)"

definition Date_getTime :: "jsstring \<Rightarrow> int" where
  "Date_getTime s =
     daysFromCivil (parseDigits (take 4 s)) (parseDigits (take 2 (drop 5 s)))
       (parseDigits (take 2 (drop 8 s))) * (1000 * 60 * 60 * 24)"

section \<open>Frequency and recency analyzer\<close>

text \<open>
  The body of the \<open>ANIMALS.map\<close> callback of \<open>calculateFrequencyAnalysis\<close>.
  \<open>catalogSize\<close> is \<open>ANIMALS.length\<close>, \<open>today\<close> is \<open>today.getTime()\<close> in milliseconds and
  \<open>getTime d\<close> is \<open>new Date(d).getTime()\<close> for a date string \<open>d\<close>.
\<close>

definition analyzeAnimal ::
  "nat \<Rightarrow> int \<Rightarrow> (jsstring \<Rightarrow> int) \<Rightarrow> HistoricalResult list \<Rightarrow> Animal \<Rightarrow> FrequencyAnalysis" where
  "analyzeAnimal catalogSize today getTime results animal =
    (let totalResults = length results;
         animalResults = filter (\<lambda>r. animal_id (hr_animal r) = animal_id animal) results;
         totalAppearances = length animalResults;
         totalFrequency =
           (if totalResults > 0 then (real totalAppearances / real totalResults) * 100 else 0);
         recent5 = sliceLast 5 results;
         recent10 = sliceLast 10 results;
         recent20 = sliceLast 20 results;
         recentAppearances5 =
           length (filter (\<lambda>r. animal_id (hr_animal r) = animal_id animal) recent5);
         recentAppearances10 =
           length (filter (\<lambda>r. animal_id (hr_animal r) = animal_id animal) recent10);
         recentAppearances20 =
           length (filter (\<lambda>r. animal_id (hr_animal r) = animal_id animal) recent20);
         recentFrequency5 =
           (if length recent5 > 0 then (real recentAppearances5 / real (length recent5)) * 100 else 0);
         recentFrequency10 =
           (if length recent10 > 0 then (real recentAppearances10 / real (length recent10)) * 100 else 0);
         recentFrequency20 =
           (if length recent20 > 0 then (real recentAppearances20 / real (length recent20)) * 100 else 0);
         lastResult = (if animalResults = [] then None else Some (last animalResults));
         lastAppearanceDate = map_option hr_date lastResult;
         daysSinceLastAppearance =
           (case lastResult of
              Some r \<Rightarrow> (today - getTime (hr_date r)) div (1000 * 60 * 60 * 24)
            | None \<Rightarrow> 999);
         avgFrequency = 100 / real catalogSize;
         isHot = (recentFrequency10 > avgFrequency * 1.5);
         isCold = (recentFrequency10 < avgFrequency * 0.5)
     in \<lparr> animalId = animal_id animal,
          fa_animal = animal,
          totalAppearances = totalAppearances,
          totalFrequency = totalFrequency,
          recentAppearances5 = recentAppearances5,
          recentAppearances10 = recentAppearances10,
          recentAppearances20 = recentAppearances20,
          recentFrequency5 = recentFrequency5,
          recentFrequency10 = recentFrequency10,
          recentFrequency20 = recentFrequency20,
          daysSinceLastAppearance = daysSinceLastAppearance,
          lastAppearanceDate = lastAppearanceDate,
          isHot = isHot,
          isCold = isCold \<rparr>)"

definition calculateFrequencyAnalysis ::
  "Animal list \<Rightarrow> int \<Rightarrow> (jsstring \<Rightarrow> int) \<Rightarrow> HistoricalResult list \<Rightarrow> FrequencyAnalysis list" where
  "calculateFrequencyAnalysis catalog today getTime results =
     map (analyzeAnimal (length catalog) today getTime results) catalog"

section \<open>Scoring engine\<close>

definition generateExplanation :: "FrequencyAnalysis \<Rightarrow> real \<Rightarrow> jsstring" where
  "generateExplanation analysis sc =
    (let e1 = (if recentFrequency10 analysis > 15 then [js ''tendencia reciente alta'']
               else if recentFrequency10 analysis < 5 then [js ''tendencia reciente baja'']
               else []);
         e2 = (if daysSinceLastAppearance analysis > 30 then [js ''mucho tiempo sin salir'']
               else if daysSinceLastAppearance analysis < 7
                 then [js ''sali'' @ [243] @ js '' recientemente'']
               else []);
         e3 = (if totalFrequency analysis > 4
                 then [js ''frecuencia hist'' @ [243] @ js ''rica alta'']
               else if totalFrequency analysis < 2
                 then [js ''frecuencia hist'' @ [243] @ js ''rica baja'']
               else []);
         explanations = e1 @ e2 @ e3
     in if length explanations = 0
        then js ''comportamiento promedio seg'' @ [250] @ js ''n an'' @ [225]
               @ js ''lisis hist'' @ [243] @ js ''rico''
        else joinWith (js '', '') explanations)"

definition determineConfidence :: "FrequencyAnalysis \<Rightarrow> real \<Rightarrow> Confidence" where
  "determineConfidence analysis sc =
    (if sc > 70 \<and> totalAppearances analysis > 10 then alta
     else if sc > 40 \<and> totalAppearances analysis > 5 then media
     else baja)"

definition calculatePredictionScores ::
  "FrequencyAnalysis list \<Rightarrow> Weights \<Rightarrow> PredictionScore list" where
  "calculatePredictionScores frequencyAnalysis weights =
    (let maxRecentFreq = Math_max (map recentFrequency10 frequencyAnalysis);
         maxTotalFreq = Math_max (map totalFrequency frequencyAnalysis);
         maxDaysSince = Math_max (map (\<lambda>f. real_of_int (daysSinceLastAppearance f)) frequencyAnalysis)
     in map (\<lambda>analysis.
          let normalizedRecentFreq =
                (if positive maxRecentFreq then recentFrequency10 analysis / the maxRecentFreq else 0);
              normalizedTotalFreq =
                (if positive maxTotalFreq then totalFrequency analysis / the maxTotalFreq else 0);
              normalizedDaysSince =
                (if positive maxDaysSince
                 then real_of_int (daysSinceLastAppearance analysis) / the maxDaysSince else 0);
              sc = (normalizedRecentFreq * w_recentFrequency weights +
                    normalizedTotalFreq * w_totalFrequency weights +
                    normalizedDaysSince * w_daysSinceAppearance weights) * 100
          in \<lparr> ps_animalId = animalId analysis,
               ps_animal = fa_animal analysis,
               score = sc,
               rank = 0,
               frequencyTotal = totalFrequency analysis,
               frequencyRecent = recentFrequency10 analysis,
               ps_daysSinceLastAppearance = daysSinceLastAppearance analysis,
               category = warm,
               explanation = generateExplanation analysis sc,
               confidence = determineConfidence analysis sc \<rparr>) frequencyAnalysis)"

text \<open>The \<open>map\<close> callback of \<open>categorizeAnimals\<close>, with \<open>index\<close> the array index.\<close>

definition assignRank :: "nat \<Rightarrow> PredictionScore \<Rightarrow> PredictionScore" where
  "assignRank index sc =
    (let rnk = index + 1;
         cat = (if rnk \<le> 5 then hot
                else if rnk \<le> 15 then warm
                else if rnk \<le> 25 then cold
                else frozen)
     in sc\<lparr> rank := rnk, category := cat \<rparr>)"

definition categorizeAnimals :: "PredictionScore list \<Rightarrow> PredictionScore list" where
  "categorizeAnimals scores =
    (let sortedScores = jsSort (\<lambda>a b. score b - score a > 0) scores
     in map (\<lambda>(index, sc). assignRank index sc) (enumerate 0 sortedScores))"

definition DEFAULT_WEIGHTS :: Weights where
  "DEFAULT_WEIGHTS =
     \<lparr> w_recentFrequency = 0.5, w_totalFrequency = 0.3, w_daysSinceAppearance = 0.2 \<rparr>"

text \<open>\<open>analyzeHistoricalData\<close>. \<open>weights\<close> is the default weights overridden by the
  caller's, \<open>todayIso\<close> is \<open>new Date().toISOString().split('T')[0]\<close>; the constant
  disclaimer text and the console output are left out.\<close>

definition analyzeHistoricalData ::
  "Animal list \<Rightarrow> int \<Rightarrow> (jsstring \<Rightarrow> int) \<Rightarrow> jsstring \<Rightarrow> LotteryId \<Rightarrow>
     HistoricalResult list \<Rightarrow> Weights \<Rightarrow> StatisticalPrediction" where
  "analyzeHistoricalData catalog today getTime todayIso lotteryId historicalResults weights =
    (let frequencyAnalysis = calculateFrequencyAnalysis catalog today getTime historicalResults;
         scoredAnimals = calculatePredictionScores frequencyAnalysis weights;
         categorizedAnimals = categorizeAnimals scoredAnimals
     in \<lparr> sp_lotteryId = lotteryId,
          analysisDate = todayIso,
          sp_totalResults = length historicalResults,
          analysisWindow = \<lparr> recent5 = min 5 (length historicalResults),
                             recent10 = min 10 (length historicalResults),
                             recent20 = min 20 (length historicalResults) \<rparr>,
          top5 = take 5 categorizedAnimals,
          top10 = take 10 categorizedAnimals,
          hotAnimals = filter (\<lambda>a. category a = hot) categorizedAnimals,
          coldAnimals = filter (\<lambda>a. category a = cold \<or> category a = frozen) categorizedAnimals,
          allAnimals = categorizedAnimals,
          sp_weights = weights \<rparr>)"

section \<open>Historical store\<close>

text \<open>\<open>realResultsService.ts\<close>: a history entry, and a draw of the day (\<open>DrawResult\<close> of
  \<open>types.ts\<close>).\<close>

datatype Source = LotoVen | LoteriaDehoy | Manual

record RealHistoryEntry =
  date :: jsstring
  hour :: jsstring
  animal :: Animal
  animalData :: Animal
  number :: jsstring
  source :: Source
  timestamp :: int

record DrawResult =
  dr_hour :: jsstring
  dr_label :: jsstring
  dr_animal :: "Animal option"
  isCompleted :: bool
  isNext :: bool

record RealResultsResponse =
  success :: bool
  draws :: "DrawResult list"
  history :: "RealHistoryEntry list"
  sources :: "jsstring list"
  totalResults :: nat

text \<open>
  \<open>localStorage\<close>, as far as the store uses it: per lottery, the item
  \<open>real_history_persistent_v1_<lotteryId>\<close> (absent, a blob that does not parse to an
  array, or an array of entries) and the item \<open>massive_load_<lotteryId>\<close> (the time of
  the last bulk load, in milliseconds). A write always succeeds; a refused write (a
  full quota), which \<open>savePersistentHistory\<close> swallows, is outside the model.
\<close>

datatype stored = NotAnArray | Entries "RealHistoryEntry list"

record storage =
  history_item :: "LotteryId \<Rightarrow> stored option"
  massive_load_item :: "LotteryId \<Rightarrow> int option"

definition getPersistentHistory :: "storage \<Rightarrow> LotteryId \<Rightarrow> RealHistoryEntry list" where
  "getPersistentHistory st lotteryId =
    (case history_item st lotteryId of
       None \<Rightarrow> []
     | Some NotAnArray \<Rightarrow> []
     | Some (Entries data) \<Rightarrow> data)"

definition savePersistentHistory :: "storage \<Rightarrow> LotteryId \<Rightarrow> RealHistoryEntry list \<Rightarrow> storage" where
  "savePersistentHistory st lotteryId h =
     st\<lparr> history_item := (history_item st)(lotteryId := Some (Entries h)) \<rparr>"

text \<open>
  The comparator of both history sorts, most recent first: \<open>b.date.localeCompare(a.date)\<close>,
  then \<open>b.hour.localeCompare(a.hour)\<close>. \<open>lc\<close> is \<open>String.prototype.localeCompare\<close>, a
  function of the platform.
\<close>

definition historyAfter ::
  "(jsstring \<Rightarrow> jsstring \<Rightarrow> int) \<Rightarrow> RealHistoryEntry \<Rightarrow> RealHistoryEntry \<Rightarrow> bool" where
  "historyAfter lc a b =
    (let dateCompare = lc (date b) (date a)
     in if dateCompare \<noteq> 0 then dateCompare > 0 else lc (hour b) (hour a) > 0)"

text \<open>
  The \<open>forEach\<close> callback of \<open>getHistoricalResults\<close>, on the pair of the history array
  and the counter \<open>newEntriesAdded\<close>. \<open>unshift\<close> puts the new entry at the front.
  \<open>now\<close> is \<open>Date.now()\<close>.
\<close>

definition mergeDraw ::
  "jsstring \<Rightarrow> int \<Rightarrow> RealHistoryEntry list \<times> nat \<Rightarrow> DrawResult \<Rightarrow> RealHistoryEntry list \<times> nat" where
  "mergeDraw todayStr now acc draw =
    (case acc of (persistentHistory, newEntriesAdded) \<Rightarrow>
      (case dr_animal draw of
         None \<Rightarrow> (persistentHistory, newEntriesAdded)
       | Some a \<Rightarrow>
           if dr_hour draw = [] then (persistentHistory, newEntriesAdded)
           else
             (case find (\<lambda>h. date h = todayStr \<and> hour h = dr_hour draw \<and>
                               animal_id (animal h) = animal_id a) persistentHistory of
                Some exists \<Rightarrow> (persistentHistory, newEntriesAdded)
              | None \<Rightarrow>
                  (\<lparr> date = todayStr, hour = dr_hour draw, animal = a, animalData = a,
                     number = animal_number a, source = LotoVen, timestamp = now \<rparr>
                     # persistentHistory,
                   newEntriesAdded + 1))))"

text \<open>
  \<open>getHistoricalResults\<close>, after \<open>getTodayResults\<close> has answered with \<open>todayDraws\<close> and
  \<open>todaySources\<close> (it catches its own errors, so the outer \<open>catch\<close> is not reached).
  \<open>todayStr\<close> is the date of the day in Venezuela. The result is the storage after the
  call, the response, and the counter \<open>newEntriesAdded\<close> that the function logs. The
  history is saved before it is sorted, and only when an entry was added.
\<close>

definition getHistoricalResults ::
  "(jsstring \<Rightarrow> jsstring \<Rightarrow> int) \<Rightarrow> storage \<Rightarrow> LotteryId \<Rightarrow> jsstring \<Rightarrow> int \<Rightarrow>
     DrawResult list \<Rightarrow> jsstring list \<Rightarrow> storage \<times> RealResultsResponse \<times> nat" where
  "getHistoricalResults lc st lotteryId todayStr now todayDraws todaySources =
    (let persistentHistory0 = getPersistentHistory st lotteryId;
         (persistentHistory, newEntriesAdded) =
            foldl (mergeDraw todayStr now) (persistentHistory0, 0) todayDraws;
         st' = (if newEntriesAdded > 0 then savePersistentHistory st lotteryId persistentHistory
                else st);
         sortedHistory = jsSort (historyAfter lc) persistentHistory
     in (st',
         \<lparr> success = True, draws = todayDraws, history = sortedHistory,
           sources = todaySources, totalResults = length sortedHistory \<rparr>,
         newEntriesAdded))"

text \<open>
  The bulk load. An item is one element of \<open>convertirAFormatoApp\<close>'s result
  (\<open>loteriaDehoyService\<close>), with its timestamp already in milliseconds.
\<close>

datatype LotteryType = lotto_activo | guacharo_activo

record AppFormatItem =
  item_date :: jsstring
  item_time :: jsstring
  lotteryType :: LotteryType
  item_animalNumber :: jsstring
  item_animalName :: jsstring
  item_timestamp :: int

record LoadCounters =
  loaded :: nat
  duplicates :: nat
  errors :: nat

text \<open>
  An element of the loader's array \<open>existingHistory\<close>. The array starts as the parsed
  history and the loop pushes entries whose \<open>animal\<close> is whatever the table lookup gave,
  so \<open>animal\<close> and \<open>animalData\<close> are table values here. \<open>asLoaded\<close> is an entry of the
  store as an element of this array.
\<close>

record LoadEntry =
  le_date :: jsstring
  le_hour :: jsstring
  le_animal :: TableValue
  le_animalData :: TableValue
  le_number :: jsstring
  le_source :: Source
  le_timestamp :: int

definition asLoaded :: "RealHistoryEntry \<Rightarrow> LoadEntry" where
  "asLoaded e =
     \<lparr> le_date = date e, le_hour = hour e, le_animal = TableAnimal (animal e),
       le_animalData = TableAnimal (animalData e), le_number = number e,
       le_source = source e, le_timestamp = timestamp e \<rparr>"

text \<open>The body of the \<open>for\<close> loop of \<open>loadMassiveHistoricalData\<close>; \<open>push\<close> puts the new
  entry at the end. Nothing in the body throws, so its \<open>catch\<close> is not reached.\<close>

definition loadItem ::
  "LotteryId \<Rightarrow> LoadEntry list \<times> LoadCounters \<Rightarrow> AppFormatItem \<Rightarrow>
     LoadEntry list \<times> LoadCounters" where
  "loadItem lotteryId acc item =
    (case acc of (existingHistory, c) \<Rightarrow>
      if lotteryType item \<noteq> (if lotteryId = LOTTO_ACTIVO then lotto_activo else guacharo_activo)
      then (existingHistory, c)
      else
        (case find (\<lambda>h. le_date h = item_date item \<and> le_hour h = item_time item \<and>
                          le_number h = item_animalNumber item) existingHistory of
           Some exists \<Rightarrow> (existingHistory, c\<lparr> duplicates := duplicates c + 1 \<rparr>)
         | None \<Rightarrow>
             (case findAnimalByNumber (item_animalNumber item) of
                None \<Rightarrow> (existingHistory, c\<lparr> errors := errors c + 1 \<rparr>)
              | Some a \<Rightarrow>
                  (existingHistory @
                     [\<lparr> le_date = item_date item, le_hour = item_time item, le_animal = a,
                        le_animalData = a, le_number = item_animalNumber item,
                        le_source = LoteriaDehoy, le_timestamp = item_timestamp item \<rparr>],
                   c\<lparr> loaded := loaded c + 1 \<rparr>))))"

text \<open>The comparator of the loader's sort, the same as \<open>historyAfter\<close>.\<close>

definition loadedAfter ::
  "(jsstring \<Rightarrow> jsstring \<Rightarrow> int) \<Rightarrow> LoadEntry \<Rightarrow> LoadEntry \<Rightarrow> bool" where
  "loadedAfter lc a b =
    (let dateCompare = lc (le_date b) (le_date a)
     in if dateCompare \<noteq> 0 then dateCompare > 0 else lc (le_hour b) (le_hour a) > 0)"

record LoadResult =
  lr_success :: bool
  lr_loaded :: nat
  lr_duplicates :: nat
  lr_errors :: nat

text \<open>
  What a call of \<open>loadMassiveHistoricalData\<close> does: the array it hands to
  \<open>savePersistentHistory\<close> and the time it writes to the item \<open>massive_load_<lotteryId>\<close>
  (\<open>None\<close>: the call does not write), and the counters it returns.
\<close>

record LoadOutcome =
  savedHistory :: "LoadEntry list option"
  massiveLoadMark :: "int option"
  lo_result :: LoadResult

text \<open>
  \<open>loadMassiveHistoricalData\<close>, with \<open>convertedData\<close> the converted answer of the
  archive pages (the empty list when the archive gave nothing) and \<open>now\<close> the time of
  the call.
\<close>

definition loadMassiveHistoricalData ::
  "(jsstring \<Rightarrow> jsstring \<Rightarrow> int) \<Rightarrow> storage \<Rightarrow> LotteryId \<Rightarrow> int \<Rightarrow> AppFormatItem list \<Rightarrow>
     LoadOutcome" where
  "loadMassiveHistoricalData lc st lotteryId now convertedData =
    (if (case massive_load_item st lotteryId of
           None \<Rightarrow> False
         | Some lastDate \<Rightarrow> now - lastDate < 7 * (1000 * 60 * 60 * 24))
     then \<lparr> savedHistory = None, massiveLoadMark = None,
            lo_result = \<lparr> lr_success = True, lr_loaded = 0, lr_duplicates = 0, lr_errors = 0 \<rparr> \<rparr>
     else if convertedData = []
     then \<lparr> savedHistory = None, massiveLoadMark = None,
            lo_result = \<lparr> lr_success = False, lr_loaded = 0, lr_duplicates = 0, lr_errors = 0 \<rparr> \<rparr>
     else
       (let (existingHistory, c) =
              foldl (loadItem lotteryId)
                (map asLoaded (getPersistentHistory st lotteryId),
                 \<lparr> loaded = 0, duplicates = 0, errors = 0 \<rparr>)
                convertedData
        in \<lparr> savedHistory = Some (jsSort (loadedAfter lc) existingHistory),
             massiveLoadMark = Some now,
             lo_result = \<lparr> lr_success = True, lr_loaded = loaded c,
                           lr_duplicates = duplicates c, lr_errors = errors c \<rparr> \<rparr>))"

text \<open>
  The storage after the call. \<open>JSON.stringify\<close> writes an entry whose \<open>animal\<close> is an
  animal of the table as the store reads it back (\<open>asStored\<close>); it drops a property
  whose value is a function, so an entry with an inherited property as \<open>animal\<close> is
  written without its animal and is no history entry any more: the storage holding
  it is outside \<open>storage\<close>, and the result is \<open>None\<close>.
\<close>

definition asStored :: "LoadEntry \<Rightarrow> RealHistoryEntry option" where
  "asStored e =
    (case le_animal e of
       InheritedProperty p \<Rightarrow> None
     | TableAnimal a \<Rightarrow>
         (case le_animalData e of
            InheritedProperty p \<Rightarrow> None
          | TableAnimal b \<Rightarrow>
              Some \<lparr> date = le_date e, hour = le_hour e, animal = a, animalData = b,
                     number = le_number e, source = le_source e,
                     timestamp = le_timestamp e \<rparr>))"

definition storageAfterLoad :: "storage \<Rightarrow> LotteryId \<Rightarrow> LoadOutcome \<Rightarrow> storage option" where
  "storageAfterLoad st lotteryId outcome =
    (case (case savedHistory outcome of
             None \<Rightarrow> Some st
           | Some h \<Rightarrow> map_option (savePersistentHistory st lotteryId) (those (map asStored h))) of
       None \<Rightarrow> None
     | Some st1 \<Rightarrow>
         (case massiveLoadMark outcome of
            None \<Rightarrow> Some st1
          | Some t \<Rightarrow>
              Some (st1\<lparr> massive_load_item := (massive_load_item st1)(lotteryId := Some t) \<rparr>)))"

text \<open>\<open>addManualResult\<close>: the result is the storage after the call and the returned
  flag.\<close>

definition addManualResult ::
  "storage \<Rightarrow> LotteryId \<Rightarrow> jsstring \<Rightarrow> jsstring \<Rightarrow> Animal \<Rightarrow> int \<Rightarrow> storage \<times> bool" where
  "addManualResult st lotteryId d hr a now =
    (let h = getPersistentHistory st lotteryId
     in case find (\<lambda>e. date e = d \<and> hour e = hr) h of
          Some exists \<Rightarrow> (st, False)
        | None \<Rightarrow>
            (savePersistentHistory st lotteryId
               (\<lparr> date = d, hour = hr, animal = a, animalData = a, number = animal_number a,
                  source = Manual, timestamp = now \<rparr> # h),
             True))"

text \<open>
  \<open>PredictionService.getHistoricalData\<close>, on the response of the store: the history is
  cut to its first \<open>maxResults\<close> entries when that is given and positive, and each
  entry is put into the analyzer's format. Every failure is rethrown as one error.
\<close>

datatype error = HistoricalDataError

definition getHistoricalData ::
  "RealResultsResponse \<Rightarrow> nat option \<Rightarrow> error + HistoricalResult list" where
  "getHistoricalData realResults maxResults =
    (if \<not> success realResults then Inl HistoricalDataError
     else if length (history realResults) = 0 then Inl HistoricalDataError
     else
       (let h = (case maxResults of
                   Some n \<Rightarrow> if n > 0 then take n (history realResults) else history realResults
                 | None \<Rightarrow> history realResults)
        in Inr (map (\<lambda>e. \<lparr> hr_date = date e, hr_hour = Some (hour e), hr_animal = animal e,
                            animalNumber = animal_number (animal e),
                            animalName = animal_name (animal e) \<rparr>) h)))"

section \<open>Entity resolver\<close>

text \<open>
  The string functions of the platform that the resolver calls, on code units.
  \<open>trim\<close> removes the white space and line terminators of ECMAScript from both ends.
  \<open>toLowerCase\<close> and the normal form NFD are modelled on Basic Latin and the Latin-1
  Supplement (other code units are left as they are): upper case letters are 32
  below their lower case, and an accented letter decomposes into its base letter and
  one combining mark.
\<close>

definition isWhiteSpace :: "nat \<Rightarrow> bool" where
  "isWhiteSpace c =
     (c \<in> {9, 10, 11, 12, 13, 32, 160, 5760, 8232, 8233, 8239, 8287, 12288, 65279}
      \<or> (8192 \<le> c \<and> c \<le> 8202))"

definition trim :: "jsstring \<Rightarrow> jsstring" where
  "trim s = rev (dropWhile isWhiteSpace (rev (dropWhile isWhiteSpace s)))"

definition toLowerCase :: "jsstring \<Rightarrow> jsstring" where
  "toLowerCase s =
     map (\<lambda>c. if (65 \<le> c \<and> c \<le> 90) \<or> (192 \<le> c \<and> c \<le> 222 \<and> c \<noteq> 215) then c + 32 else c) s"

definition nfdTable :: "(nat \<times> jsstring) list" where
  "nfdTable =
     [
      (192, [65, 768]), (193, [65, 769]), (194, [65, 770]), (195, [65, 771]),
      (196, [65, 776]), (197, [65, 778]), (199, [67, 807]), (200, [69, 768]),
      (201, [69, 769]), (202, [69, 770]), (203, [69, 776]), (204, [73, 768]),
      (205, [73, 769]), (206, [73, 770]), (207, [73, 776]), (209, [78, 771]),
      (210, [79, 768]), (211, [79, 769]), (212, [79, 770]), (213, [79, 771]),
      (214, [79, 776]), (217, [85, 768]), (218, [85, 769]), (219, [85, 770]),
      (220, [85, 776]), (221, [89, 769]), (224, [97, 768]), (225, [97, 769]),
      (226, [97, 770]), (227, [97, 771]), (228, [97, 776]), (229, [97, 778]),
      (231, [99, 807]), (232, [101, 768]), (233, [101, 769]), (234, [101, 770]),
      (235, [101, 776]), (236, [105, 768]), (237, [105, 769]), (238, [105, 770]),
      (239, [105, 776]), (241, [110, 771]), (242, [111, 768]), (243, [111, 769]),
      (244, [111, 770]), (245, [111, 771]), (246, [111, 776]), (249, [117, 768]),
      (250, [117, 769]), (251, [117, 770]), (252, [117, 776]), (253, [121, 769]),
      (255, [121, 776])
     ]"

definition normalizeNFD :: "jsstring \<Rightarrow> jsstring" where
  "normalizeNFD s = concat (map (\<lambda>c. case map_of nfdTable c of Some d \<Rightarrow> d | None \<Rightarrow> [c]) s)"

text \<open>\<open>s.padStart(2, '0')\<close> and the decimal \<open>toString\<close> of a natural number.\<close>

definition padStart2 :: "jsstring \<Rightarrow> jsstring" where
  "padStart2 s = replicate (2 - length s) 48 @ s"



text \<open>\<open>s.includes(t)\<close>: \<open>t\<close> occurs in \<open>s\<close> as a contiguous part.\<close>

fun startsWith :: "jsstring \<Rightarrow> jsstring \<Rightarrow> bool" where
  "startsWith s [] = True"
| "startsWith [] (y # ys) = False"
| "startsWith (x # xs) (y # ys) = (x = y \<and> startsWith xs ys)"

fun jsIncludes :: "jsstring \<Rightarrow> jsstring \<Rightarrow> bool" where
  "jsIncludes [] t = (t = [])"
| "jsIncludes (x # xs) t = (startsWith (x # xs) t \<or> jsIncludes xs t)"

text \<open>
  The first match of \<open>/\b(\d{1,2})\b/\<close>: one or two digits with a word boundary on
  both sides. The scan goes from left to right; \<open>prevWord\<close> tells whether the code
  unit before the position is a word character (\<open>[A-Za-z0-9_]\<close>). At a position the
  two-digit alternative is tried before the one-digit one.
\<close>

definition isDigit :: "nat \<Rightarrow> bool" where
  "isDigit c = (48 \<le> c \<and> c \<le> 57)"

definition isWordChar :: "nat \<Rightarrow> bool" where
  "isWordChar c = (isDigit c \<or> (65 \<le> c \<and> c \<le> 90) \<or> (97 \<le> c \<and> c \<le> 122) \<or> c = 95)"

fun numberMatchFrom :: "bool \<Rightarrow> jsstring \<Rightarrow> jsstring option" where
  "numberMatchFrom prevWord [] = None"
| "numberMatchFrom prevWord (c # cs) =
     (if \<not> prevWord \<and> isDigit c then
        (case cs of
           [] \<Rightarrow> Some [c]
         | d # ds \<Rightarrow>
             if isDigit d \<and> (case ds of [] \<Rightarrow> True | e # es \<Rightarrow> \<not> isWordChar e) then Some [c, d]
             else if \<not> isWordChar d then Some [c]
             else numberMatchFrom (isWordChar c) cs)
      else numberMatchFrom (isWordChar c) cs)"

definition numberMatch :: "jsstring \<Rightarrow> jsstring option" where
  "numberMatch s = numberMatchFrom False s"

text \<open>The normalization of a name: lower case, NFD, the combining marks
  \<open>U+0300\<close> to \<open>U+036F\<close> removed, and then everything but \<open>a\<close> to \<open>z\<close> removed.\<close>

definition normalizeName :: "jsstring \<Rightarrow> jsstring" where
  "normalizeName s =
     filter (\<lambda>c. 97 \<le> c \<and> c \<le> 122)
       (filter (\<lambda>c. \<not> (768 \<le> c \<and> c \<le> 879)) (normalizeNFD (toLowerCase s)))"

text \<open>
  \<open>levenshteinDistance\<close>: the matrix is built row by row, one row for each code unit
  of \<open>str2\<close>. \<open>levRow\<close> computes the cells of a row after the first; \<open>d\<close> and \<open>u\<close> are
  the cells of the row above, to the left and straight above, and \<open>left\<close> is the cell
  to the left.
\<close>

fun levRow :: "nat \<Rightarrow> jsstring \<Rightarrow> nat list \<Rightarrow> nat \<Rightarrow> nat list" where
  "levRow c2 (c1 # cs) (d # u # prevRow) left =
     (let v = (if c2 = c1 then d else min (min (d + 1) (left + 1)) (u + 1))
      in v # levRow c2 cs (u # prevRow) v)"
| "levRow c2 cs prevRow left = []"

definition levenshteinDistance :: "jsstring \<Rightarrow> jsstring \<Rightarrow> nat" where
  "levenshteinDistance str1 str2 =
     last (foldl (\<lambda>row (i, c2). i # levRow c2 str1 row i)
             [0 ..< Suc (length str1)] (enumerate 1 str2))"

text \<open>The \<open>forEach\<close> callback of the similarity search; the accumulator is
  \<open>bestMatch\<close> with \<open>bestScore\<close>, \<open>None\<close> standing for \<open>null\<close> with \<open>Infinity\<close>.\<close>

definition similarityStep ::
  "jsstring \<Rightarrow> (Animal \<times> nat) option \<Rightarrow> Animal \<Rightarrow> (Animal \<times> nat) option" where
  "similarityStep normalizedInput best a =
    (let normalizedName = normalizeName (animal_name a);
         distance = levenshteinDistance normalizedInput normalizedName;
         maxLength = max (length normalizedInput) (length normalizedName);
         similarity = 1 - real distance / real maxLength
     in if similarity > 0.7 \<and> (case best of None \<Rightarrow> True | Some (b, bestScore) \<Rightarrow> distance < bestScore)
        then Some (a, distance) else best)"

text \<open>\<open>findAnimalByNameOrNumber\<close> of \<open>lotovenService.ts\<close>, over the catalog.\<close>

definition findAnimalByNameOrNumber :: "Animal list \<Rightarrow> jsstring \<Rightarrow> Animal option" where
  "findAnimalByNameOrNumber catalog input =
    (if input = [] then None
     else
      (let cleanInput = trim input in
       if length cleanInput = 0 then None
       else
        (case (case numberMatch cleanInput of
                 None \<Rightarrow> None
               | Some digits \<Rightarrow>
                   find (\<lambda>a. animal_number a = padStart2 digits \<or> animal_id a = padStart2 digits)
                     catalog) of
           Some byNumber \<Rightarrow> Some byNumber
         | None \<Rightarrow>
            (case find (\<lambda>a. toLowerCase (animal_name a) = toLowerCase cleanInput) catalog of
               Some exactMatch \<Rightarrow> Some exactMatch
             | None \<Rightarrow>
                (let normalizedInput = normalizeName cleanInput in
                 if length normalizedInput < 2 then None
                 else
                  (case find (\<lambda>a. normalizeName (animal_name a) = normalizedInput) catalog of
                     Some normalizedExact \<Rightarrow> Some normalizedExact
                   | None \<Rightarrow>
                      (case find (\<lambda>a. jsIncludes (normalizeName (animal_name a)) normalizedInput
                                       \<or> jsIncludes normalizedInput (normalizeName (animal_name a)))
                              catalog of
                         Some partialMatch \<Rightarrow> Some partialMatch
                       | None \<Rightarrow>
                           map_option fst
                             (foldl (similarityStep normalizedInput) None catalog))))))))"

section \<open>HTML extractor\<close>













section \<open>Specification-side notions and sample data\<close>

text \<open>The category of a rank, in the words of the specification: rank at most 5 is
  hot, at most 15 warm, at most 25 cold, and every higher rank frozen.\<close>

definition spec_categoryOfRank :: "nat \<Rightarrow> Category" where
  "spec_categoryOfRank r =
     (if r \<le> 5 then hot else if r \<le> 15 then warm else if r \<le> 25 then cold else frozen)"

text \<open>
  The recent window in the words of the specification: of a history that is sorted
  with the most recent record first, the \<open>w\<close> most recent records are the first \<open>w\<close>.
  Likewise the most recent record of an entity is the first one that matches it.
\<close>

definition spec_recentWindow :: "nat \<Rightarrow> HistoricalResult list \<Rightarrow> HistoricalResult list" where
  "spec_recentWindow w results = take w results"

definition spec_mostRecentMatch :: "HistoricalResult list \<Rightarrow> Animal \<Rightarrow> HistoricalResult option" where
  "spec_mostRecentMatch results a =
     find (\<lambda>r. animal_id (hr_animal r) = animal_id a) results"

text \<open>
  The two keys of the store in the words of the specification: a record of the
  history matches a candidate on (date, hour, entityId); a slot (date, hour) is
  taken when some record has it, whatever its entity.
\<close>

definition spec_matches :: "RealHistoryEntry list \<Rightarrow> jsstring \<Rightarrow> jsstring \<Rightarrow> jsstring \<Rightarrow> bool" where
  "spec_matches h d hr entityId =
     list_ex (\<lambda>e. date e = d \<and> hour e = hr \<and> animal_id (animal e) = entityId) h"

definition spec_slotTaken :: "RealHistoryEntry list \<Rightarrow> jsstring \<Rightarrow> jsstring \<Rightarrow> bool" where
  "spec_slotTaken h d hr = list_ex (\<lambda>e. date e = d \<and> hour e = hr) h"

text \<open>The entries that the live merge and the manual entry point write.\<close>

definition liveEntry :: "jsstring \<Rightarrow> int \<Rightarrow> jsstring \<Rightarrow> Animal \<Rightarrow> RealHistoryEntry" where
  "liveEntry todayStr now hr a =
     \<lparr> date = todayStr, hour = hr, animal = a, animalData = a,
       number = animal_number a, source = LotoVen, timestamp = now \<rparr>"

definition manualEntry :: "jsstring \<Rightarrow> jsstring \<Rightarrow> Animal \<Rightarrow> int \<Rightarrow> RealHistoryEntry" where
  "manualEntry d hr a now =
     \<lparr> date = d, hour = hr, animal = a, animalData = a,
       number = animal_number a, source = Manual, timestamp = now \<rparr>"


text \<open>
  The bulk load as the spec words it. The id of the entity of a record of the
  loader's array is \<open>animal.id\<close>; a record whose \<open>animal\<close> is an inherited property has
  none. A candidate already recorded is one that a record matches on date, hour and
  entity id, the key of the live merge. One step of the load passes over a candidate
  of another lottery, counts a candidate already recorded as a duplicate and leaves
  the array as it is, counts a candidate whose number the table does not have as an
  error, and otherwise puts the candidate at the end of the array and counts it as
  loaded. The load runs the steps from the persisted history, saves the array sorted
  most recent first, marks the time of the load and reports the three counters.
\<close>

definition entityIdOf :: "LoadEntry \<Rightarrow> jsstring option" where
  "entityIdOf e =
    (case le_animal e of
       TableAnimal a \<Rightarrow> Some (animal_id a)
     | InheritedProperty p \<Rightarrow> None)"

definition spec_loadMatches :: "LoadEntry list \<Rightarrow> jsstring \<Rightarrow> jsstring \<Rightarrow> jsstring \<Rightarrow> bool" where
  "spec_loadMatches h d hr entityId =
     list_ex (\<lambda>e. le_date e = d \<and> le_hour e = hr \<and> entityIdOf e = Some entityId) h"

definition spec_loadCandidate ::
  "LotteryId \<Rightarrow> LoadEntry list \<times> LoadCounters \<Rightarrow> AppFormatItem \<Rightarrow>
     LoadEntry list \<times> LoadCounters" where
  "spec_loadCandidate lotteryId acc item =
    (case acc of (h, c) \<Rightarrow>
      if lotteryType item \<noteq> (if lotteryId = LOTTO_ACTIVO then lotto_activo else guacharo_activo)
      then (h, c)
      else if spec_loadMatches h (item_date item) (item_time item) (item_animalNumber item)
      then (h, c\<lparr> duplicates := duplicates c + 1 \<rparr>)
      else
        (case findAnimalByNumber (item_animalNumber item) of
           None \<Rightarrow> (h, c\<lparr> errors := errors c + 1 \<rparr>)
         | Some a \<Rightarrow>
             (h @ [\<lparr> le_date = item_date item, le_hour = item_time item, le_animal = a,
                     le_animalData = a, le_number = item_animalNumber item,
                     le_source = LoteriaDehoy, le_timestamp = item_timestamp item \<rparr>],
              c\<lparr> loaded := loaded c + 1 \<rparr>)))"

text \<open>The records that a call saves; none when it does not write.\<close>

definition savedRecords :: "LoadOutcome \<Rightarrow> LoadEntry list" where
  "savedRecords outcome = (case savedHistory outcome of None \<Rightarrow> [] | Some h \<Rightarrow> h)"

definition spec_bulkLoad ::
  "(jsstring \<Rightarrow> jsstring \<Rightarrow> int) \<Rightarrow> RealHistoryEntry list \<Rightarrow> LotteryId \<Rightarrow> int \<Rightarrow>
     AppFormatItem list \<Rightarrow> LoadOutcome" where
  "spec_bulkLoad lc persisted lotteryId now candidates =
    (let (h, c) =
           foldl (spec_loadCandidate lotteryId)
             (map asLoaded persisted, \<lparr> loaded = 0, duplicates = 0, errors = 0 \<rparr>) candidates
     in \<lparr> savedHistory = Some (jsSort (loadedAfter lc) h),
          massiveLoadMark = Some now,
          lo_result = \<lparr> lr_success = True, lr_loaded = loaded c,
                        lr_duplicates = duplicates c, lr_errors = errors c \<rparr> \<rparr>)"


text \<open>The score record that the scoring engine computes for an entity when the
  history is empty, before ranking; \<open>n\<close> is the size of the catalog.\<close>

definition emptyScore :: "nat \<Rightarrow> Weights \<Rightarrow> Animal \<Rightarrow> PredictionScore" where
  "emptyScore n w a =
     \<lparr> ps_animalId = animal_id a, ps_animal = a, score = w_daysSinceAppearance w * 100, rank = 0,
       frequencyTotal = 0, frequencyRecent = 0, ps_daysSinceLastAppearance = 999, category = warm,
       explanation =
         generateExplanation (analyzeAnimal n 0 (\<lambda>d. 0) [] a) (w_daysSinceAppearance w * 100),
       confidence = baja \<rparr>"

text \<open>
  An instance of \<open>localeCompare\<close> for the closed examples: the order of the code units.
  On the dates (\<open>YYYY-MM-DD\<close>) and hours (\<open>HH:MM\<close>) that the store writes, digits with
  the separators at fixed places, the collation order is this order.
\<close>

fun codeUnitCompare :: "jsstring \<Rightarrow> jsstring \<Rightarrow> int" where
  "codeUnitCompare [] [] = 0"
| "codeUnitCompare [] (y # ys) = - 1"
| "codeUnitCompare (x # xs) [] = 1"
| "codeUnitCompare (x # xs) (y # ys) =
     (if x < y then - 1 else if y < x then 1 else codeUnitCompare xs ys)"

definition leon :: Animal where
  "leon = mkAnimal (js ''05'') (js ''Le'' @ [243] @ js ''n'')"

definition toro :: Animal where
  "toro = mkAnimal (js ''02'') (js ''Toro'')"

definition entry :: "string \<Rightarrow> string \<Rightarrow> Animal \<Rightarrow> RealHistoryEntry" where
  "entry d h a =
     \<lparr> date = js d, hour = js h, animal = a, animalData = a, number = animal_number a,
       source = LotoVen, timestamp = 0 \<rparr>"

definition formatted :: "string \<Rightarrow> string \<Rightarrow> Animal \<Rightarrow> HistoricalResult" where
  "formatted d h a =
     \<lparr> hr_date = js d, hr_hour = Some (js h), hr_animal = a,
       animalNumber = animal_number a, animalName = animal_name a \<rparr>"

definition drawOf :: "string \<Rightarrow> Animal \<Rightarrow> DrawResult" where
  "drawOf h a =
     \<lparr> dr_hour = js h, dr_label = js h, dr_animal = Some a, isCompleted = True, isNext = False \<rparr>"

text \<open>Six draws of one day as the store holds them, Leon being the draw of 14:00, the
  latest; the storage that holds them for both lotteries; and the same six as the
  analyzer receives them, most recent first.\<close>

definition storedSix :: "RealHistoryEntry list" where
  "storedSix =
    [entry ''2024-01-10'' ''09:00'' (mkAnimal (js ''01'') (js ''Carnero'')),
     entry ''2024-01-10'' ''10:00'' toro,
     entry ''2024-01-10'' ''14:00'' leon,
     entry ''2024-01-10'' ''11:00'' (mkAnimal (js ''06'') (js ''Rana'')),
     entry ''2024-01-10'' ''12:00'' (mkAnimal (js ''07'') (js ''Perico'')),
     entry ''2024-01-10'' ''13:00'' (mkAnimal (js ''10'') (js ''Tigre''))]"

definition storageSix :: storage where
  "storageSix =
     \<lparr> history_item = (\<lambda>l. Some (Entries storedSix)), massive_load_item = (\<lambda>l. None) \<rparr>"

definition historySix :: "HistoricalResult list" where
  "historySix =
    [formatted ''2024-01-10'' ''14:00'' leon,
     formatted ''2024-01-10'' ''13:00'' (mkAnimal (js ''10'') (js ''Tigre'')),
     formatted ''2024-01-10'' ''12:00'' (mkAnimal (js ''07'') (js ''Perico'')),
     formatted ''2024-01-10'' ''11:00'' (mkAnimal (js ''06'') (js ''Rana'')),
     formatted ''2024-01-10'' ''10:00'' toro,
     formatted ''2024-01-10'' ''09:00'' (mkAnimal (js ''01'') (js ''Carnero''))]"

text \<open>Two draws of Leon, nine days apart, in the store and as the analyzer receives
  them.\<close>

definition storedTwo :: "RealHistoryEntry list" where
  "storedTwo =
    [entry ''2024-01-01'' ''09:00'' leon,
     entry ''2024-01-10'' ''09:00'' leon]"

definition storageTwo :: storage where
  "storageTwo =
     \<lparr> history_item = (\<lambda>l. Some (Entries storedTwo)), massive_load_item = (\<lambda>l. None) \<rparr>"

definition historyTwo :: "HistoricalResult list" where
  "historyTwo =
    [formatted ''2024-01-10'' ''09:00'' leon,
     formatted ''2024-01-01'' ''09:00'' leon]"


definition sampleItem :: AppFormatItem where
  "sampleItem =
     \<lparr> item_date = js ''2024-01-10'', item_time = js ''14:00'', lotteryType = guacharo_activo,
       item_animalNumber = js ''05'', item_animalName = js ''Le'' @ [243] @ js ''n'',
       item_timestamp = 0 \<rparr>"


text \<open>
  A batch of the archive for the sample store: Leon at 14:00, which the store has;
  Toro at 15:00, twice; Toro at 14:00, the hour of Leon; a number that the table does
  not have; and a draw of the other lottery. The six stored draws, sorted; and the
  store after the batch, with Toro at 15:00 once, in front, and Toro at 14:00 after
  Leon.
\<close>

definition archiveItem :: "string \<Rightarrow> string \<Rightarrow> LotteryType \<Rightarrow> string \<Rightarrow> AppFormatItem" where
  "archiveItem d h l n =
     \<lparr> item_date = js d, item_time = js h, lotteryType = l, item_animalNumber = js n,
       item_animalName = [], item_timestamp = 0 \<rparr>"

definition sampleBatch :: "AppFormatItem list" where
  "sampleBatch =
    [sampleItem,
     archiveItem ''2024-01-10'' ''15:00'' guacharo_activo ''02'',
     archiveItem ''2024-01-10'' ''15:00'' guacharo_activo ''02'',
     archiveItem ''2024-01-10'' ''14:00'' guacharo_activo ''02'',
     archiveItem ''2024-01-10'' ''16:00'' guacharo_activo ''99'',
     archiveItem ''2024-01-10'' ''09:00'' lotto_activo ''03'']"

definition loadedToro :: "string \<Rightarrow> RealHistoryEntry" where
  "loadedToro h =
     \<lparr> date = js ''2024-01-10'', hour = js h, animal = toro, animalData = toro,
       number = js ''02'', source = LoteriaDehoy, timestamp = 0 \<rparr>"

definition storedSorted :: "RealHistoryEntry list" where
  "storedSorted =
    [entry ''2024-01-10'' ''14:00'' leon,
     entry ''2024-01-10'' ''13:00'' (mkAnimal (js ''10'') (js ''Tigre'')),
     entry ''2024-01-10'' ''12:00'' (mkAnimal (js ''07'') (js ''Perico'')),
     entry ''2024-01-10'' ''11:00'' (mkAnimal (js ''06'') (js ''Rana'')),
     entry ''2024-01-10'' ''10:00'' toro,
     entry ''2024-01-10'' ''09:00'' (mkAnimal (js ''01'') (js ''Carnero''))]"

definition storedLoaded :: "RealHistoryEntry list" where
  "storedLoaded =
    [loadedToro ''15:00'',
     entry ''2024-01-10'' ''14:00'' leon,
     loadedToro ''14:00'',
     entry ''2024-01-10'' ''13:00'' (mkAnimal (js ''10'') (js ''Tigre'')),
     entry ''2024-01-10'' ''12:00'' (mkAnimal (js ''07'') (js ''Perico'')),
     entry ''2024-01-10'' ''11:00'' (mkAnimal (js ''06'') (js ''Rana'')),
     entry ''2024-01-10'' ''10:00'' toro,
     entry ''2024-01-10'' ''09:00'' (mkAnimal (js ''01'') (js ''Carnero''))]"

text \<open>A batch that names an inherited property of the table, twice, and the record
  that the load makes of it.\<close>

definition inheritedBatch :: "AppFormatItem list" where
  "inheritedBatch =
    [archiveItem ''2024-01-10'' ''15:00'' guacharo_activo ''constructor'',
     archiveItem ''2024-01-10'' ''15:00'' guacharo_activo ''constructor'']"

definition loadedInherited :: LoadEntry where
  "loadedInherited =
     \<lparr> le_date = js ''2024-01-10'', le_hour = js ''15:00'',
       le_animal = InheritedProperty (js ''constructor''),
       le_animalData = InheritedProperty (js ''constructor''),
       le_number = js ''constructor'', le_source = LoteriaDehoy, le_timestamp = 0 \<rparr>"

text \<open>An entity that is not in the catalog, and the sample history with a draw of it
  at 15:00, as the analyzer receives it.\<close>

definition dragon :: Animal where
  "dragon = mkAnimal (js ''99'') (js ''Dragon'')"

definition historySeven :: "HistoricalResult list" where
  "historySeven = formatted ''2024-01-10'' ''15:00'' dragon # historySix"

section \<open>Lemmas on the platform functions\<close>

lemma length_insertSorted: "length (insertSorted after x xs) = Suc (length xs)"
  by (induction xs) auto

lemma length_jsSort: "length (jsSort after xs) = length xs"
  unfolding jsSort_def by (induction xs) (auto simp: length_insertSorted)

lemma mset_insertSorted: "mset (insertSorted after x xs) = add_mset x (mset xs)"
  by (induction xs) auto

lemma mset_jsSort: "mset (jsSort after xs) = mset xs"
  unfolding jsSort_def by (induction xs) (auto simp: mset_insertSorted)

lemma set_jsSort: "set (jsSort after xs) = set xs"
  using mset_jsSort[of after xs] by (metis set_mset_mset)


lemma insertSorted_front: "(\<forall>y \<in> set ys. \<not> after x y) \<Longrightarrow> insertSorted after x ys = x # ys"
  by (cases ys) auto

lemma jsSort_unchanged:
  "(\<forall>a \<in> set xs. \<forall>b \<in> set xs. \<not> after a b) \<Longrightarrow> jsSort after xs = xs"
  unfolding jsSort_def
  by (induction xs) (auto simp: insertSorted_front)




lemma fold_max_const: "fold max (map (\<lambda>_. c) xs) (c::real) = c"
  by (induction xs) auto

lemma Math_max_const: "xs \<noteq> [] \<Longrightarrow> Math_max (map (\<lambda>_. c) xs) = Some c"
  by (cases xs) (auto simp: fold_max_const)

lemma find_None_list_ex: "(find P xs = None) = (\<not> list_ex P xs)"
  by (auto simp: find_None_iff list_ex_iff)

lemma find_Some_list_ex: "find P xs = Some x \<Longrightarrow> list_ex P xs"
  using find_None_list_ex[of P xs] by auto




section \<open>The catalog\<close>

lemma length_ANIMALS: "length ANIMALS = 37"
  by (simp add: ANIMALS_def animalMap_def)

lemma ANIMALS_nonempty: "ANIMALS \<noteq> []"
  using length_ANIMALS by auto

lemma ids_ANIMALS: "map animal_id ANIMALS = map fst animalMap"
  by (simp add: ANIMALS_def animalMap_def mkAnimal_def)

lemma distinct_ANIMALS: "distinct (map animal_id ANIMALS)"
  unfolding ids_ANIMALS by (simp add: animalMap_def js_def)

lemma animalMap_keys: "\<forall>(k, v) \<in> set animalMap. animal_id v = k"
  by (simp add: animalMap_def mkAnimal_def)

lemma findAnimalByNumber_id: "findAnimalByNumber x = Some (TableAnimal a) \<Longrightarrow> animal_id a = x"
proof -
  assume r: "findAnimalByNumber x = Some (TableAnimal a)"
  then have "map_of animalMap x = Some a"
    by (simp add: findAnimalByNumber_def split: option.splits if_splits)
  then have "(x, a) \<in> set animalMap" by (rule map_of_SomeD)
  with animalMap_keys show ?thesis by fastforce
qed

lemma findAnimalByNumber_own:
  assumes "x \<notin> set objectPrototypeNames" and "findAnimalByNumber x = Some v"
  shows "\<exists>a. v = TableAnimal a \<and> animal_id a = x"
proof (cases v)
  case (TableAnimal a)
  with assms(2) findAnimalByNumber_id[of x a] show ?thesis by simp
next
  case (InheritedProperty p)
  with assms show ?thesis
    by (simp add: findAnimalByNumber_def split: option.splits if_splits)
qed

section \<open>Ranking\<close>

lemma rank_assignRank: "rank (assignRank i s) = Suc i"
  by (simp add: assignRank_def Let_def)

lemma category_assignRank: "category (assignRank i s) = spec_categoryOfRank (Suc i)"
  by (simp add: assignRank_def Let_def spec_categoryOfRank_def)

lemma animalId_assignRank: "ps_animalId (assignRank i s) = ps_animalId s"
  by (simp add: assignRank_def Let_def)

lemma map_enumerate_field:
  assumes "\<And>i x. f (g i x) = h x"
  shows "map f (map (\<lambda>(index, sc). g index sc) (enumerate n xs)) = map h xs"
  using assms by (induction xs arbitrary: n) auto

lemma map_enumerate_index:
  assumes "\<And>i x. f (g i x) = h (Suc i)"
  shows "map f (map (\<lambda>(index, sc). g index sc) (enumerate n xs)) =
           map h [Suc n ..< Suc n + length xs]"
proof (induction xs arbitrary: n)
  case Nil
  then show ?case by simp
next
  case (Cons x xs)
  have "[Suc n ..< Suc n + length (x # xs)] = Suc n # [Suc (Suc n) ..< Suc (Suc n) + length xs]"
    by (simp add: upt_rec)
  with Cons show ?case by (simp add: assms)
qed

lemma map_rank_enumerate:
  "map rank (map (\<lambda>(index, sc). assignRank index sc) (enumerate n xs)) =
     [Suc n ..< Suc n + length xs]"
  using map_enumerate_index[where f = rank and g = assignRank and h = "\<lambda>i. i", OF rank_assignRank]
  by simp

text \<open>
  C6. Whatever the scores of the N entities are, the ranks that \<open>categorizeAnimals\<close>
  assigns are 1, 2, ..., N in this order, so they are exactly the set from 1 to N
  with no gap and no repeat; the ranked entities are the scored ones; and the
  category of each is the specification's function of its rank (hot up to 5, warm
  up to 15, cold up to 25, frozen above), so that rank 1 is hot and rank 37 frozen.
\<close>

theorem categorizeAnimals_ranks_dense:
  "map rank (categorizeAnimals scores) = [1 ..< Suc (length scores)]
   \<and> map category (categorizeAnimals scores) = map spec_categoryOfRank [1 ..< Suc (length scores)]
   \<and> mset (map ps_animalId (categorizeAnimals scores)) = mset (map ps_animalId scores)
   \<and> spec_categoryOfRank 1 = hot \<and> spec_categoryOfRank 37 = frozen"
proof -
  let ?sorted = "jsSort (\<lambda>a b. score b - score a > 0) scores"
  have c: "categorizeAnimals scores =
      map (\<lambda>(index, sc). assignRank index sc) (enumerate 0 ?sorted)"
    by (simp add: categorizeAnimals_def Let_def)
  have r: "map rank (categorizeAnimals scores) = [1 ..< Suc (length scores)]"
    unfolding c by (simp add: map_rank_enumerate length_jsSort del: map_map)
  have k: "map category (categorizeAnimals scores) =
      map spec_categoryOfRank [1 ..< Suc (length scores)]"
    unfolding c
    using map_enumerate_index[where f = category and g = assignRank
        and h = spec_categoryOfRank and n = 0 and xs = ?sorted, OF category_assignRank]
    by (simp add: length_jsSort)
  have "map ps_animalId (categorizeAnimals scores) = map ps_animalId ?sorted"
    unfolding c
    by (rule map_enumerate_field) (rule animalId_assignRank)
  then have m: "mset (map ps_animalId (categorizeAnimals scores)) = mset (map ps_animalId scores)"
    by (simp add: mset_jsSort)
  show ?thesis
    using r k m by (simp add: spec_categoryOfRank_def)
qed

section \<open>Frequencies\<close>

lemma totalAppearances_analyzeAnimal:
  "totalAppearances (analyzeAnimal n today getTime results a) =
     length (filter (\<lambda>r. animal_id (hr_animal r) = animal_id a) results)"
  by (simp add: analyzeAnimal_def Let_def)

lemma sum_indicator_distinct:
  "distinct (map animal_id catalog) \<Longrightarrow>
   sum_list (map (\<lambda>a. if x = animal_id a then (1::nat) else 0) catalog) =
     (if x \<in> set (map animal_id catalog) then 1 else 0)"
  by (induction catalog) auto

lemma sum_counts:
  "distinct (map animal_id catalog) \<Longrightarrow>
   sum_list (map (\<lambda>a. length (filter (\<lambda>r. animal_id (hr_animal r) = animal_id a) results)) catalog) =
     length (filter (\<lambda>r. animal_id (hr_animal r) \<in> set (map animal_id catalog)) results)"
proof (induction results)
  case Nil
  then show ?case by simp
next
  case (Cons r rs)
  have "sum_list (map (\<lambda>a. length (filter (\<lambda>r. animal_id (hr_animal r) = animal_id a) (r # rs))) catalog)
      = sum_list (map (\<lambda>a. (if animal_id (hr_animal r) = animal_id a then 1 else 0)
           + length (filter (\<lambda>r. animal_id (hr_animal r) = animal_id a) rs)) catalog)"
    by (rule arg_cong[where f = sum_list]) simp
  also have "\<dots> = sum_list (map (\<lambda>a. if animal_id (hr_animal r) = animal_id a then (1::nat) else 0) catalog)
      + sum_list (map (\<lambda>a. length (filter (\<lambda>r. animal_id (hr_animal r) = animal_id a) rs)) catalog)"
    by (simp add: sum_list_addf)
  finally show ?case using Cons by (simp add: sum_indicator_distinct)
qed

lemma ids_historySix:
  "map (\<lambda>r. animal_id (hr_animal r)) historySix = map js [''05'', ''10'', ''07'', ''06'', ''02'', ''01'']"
  by (simp add: historySix_def formatted_def leon_def toro_def mkAnimal_def)

lemma historySix_in_catalog:
  "set (map (\<lambda>r. animal_id (hr_animal r)) historySix) \<subseteq> set (map animal_id ANIMALS)"
  unfolding ids_historySix ids_ANIMALS by (simp add: animalMap_def js_def)

lemma sum_totalAppearances:
  "sum_list (map totalAppearances (calculateFrequencyAnalysis catalog today getTime results))
     = sum_list (map (\<lambda>a. length (filter (\<lambda>r. animal_id (hr_animal r) = animal_id a) results)) catalog)"
  by (simp add: calculateFrequencyAnalysis_def comp_def totalAppearances_analyzeAnimal)

text \<open>
  C7, as it holds. The analyzer counts a record for the entities that have the id
  of the record's animal and does not look whether there is one. The
  \<open>totalAppearances\<close> of the entities of the catalog add up to the number of records
  whose animal's id is an id of the catalog; for a catalog with distinct ids in
  general. They add up to the length of the history when every record carries an id
  of the catalog.
\<close>

theorem totalAppearances_sum_eq_catalog_records:
  "sum_list (map totalAppearances (calculateFrequencyAnalysis ANIMALS today getTime results))
     = length (filter (\<lambda>r. animal_id (hr_animal r) \<in> set (map animal_id ANIMALS)) results)
   \<and> ((\<forall>r \<in> set results. animal_id (hr_animal r) \<in> set (map animal_id ANIMALS)) \<longrightarrow>
        sum_list (map totalAppearances (calculateFrequencyAnalysis ANIMALS today getTime results))
          = length results)
   \<and> (distinct (map animal_id catalog) \<longrightarrow>
        sum_list (map totalAppearances (calculateFrequencyAnalysis catalog today getTime results))
          = length (filter (\<lambda>r. animal_id (hr_animal r) \<in> set (map animal_id catalog)) results))"
proof -
  have g: "sum_list (map totalAppearances (calculateFrequencyAnalysis c today getTime results))
      = length (filter (\<lambda>r. animal_id (hr_animal r) \<in> set (map animal_id c)) results)"
    if "distinct (map animal_id c)" for c
    unfolding sum_totalAppearances using that by (rule sum_counts)
  have a: "sum_list (map totalAppearances (calculateFrequencyAnalysis ANIMALS today getTime results))
     = length (filter (\<lambda>r. animal_id (hr_animal r) \<in> set (map animal_id ANIMALS)) results)"
    using distinct_ANIMALS by (rule g)
  have b: "sum_list (map totalAppearances (calculateFrequencyAnalysis ANIMALS today getTime results))
          = length results"
    if "\<forall>r \<in> set results. animal_id (hr_animal r) \<in> set (map animal_id ANIMALS)"
    unfolding a using that by simp
  show ?thesis using a b g by blast
qed

text \<open>The six draws of the sample history carry catalog entities, and their
  appearances add up to six.\<close>

theorem totalAppearances_sum_witness:
  "distinct (map animal_id ANIMALS)
   \<and> set (map (\<lambda>r. animal_id (hr_animal r)) historySix) \<subseteq> set (map animal_id ANIMALS)
   \<and> length historySix = 6
   \<and> sum_list (map totalAppearances
         (calculateFrequencyAnalysis ANIMALS 1704931200000 Date_getTime historySix)) = 6"
proof -
  have m: "\<forall>r \<in> set historySix. animal_id (hr_animal r) \<in> set (map animal_id ANIMALS)"
    using historySix_in_catalog by auto
  have l: "length historySix = 6" by (simp add: historySix_def)
  note T = totalAppearances_sum_eq_catalog_records[where results = historySix
      and today = 1704931200000 and getTime = Date_getTime and catalog = ANIMALS]
  from T m have "sum_list (map totalAppearances
         (calculateFrequencyAnalysis ANIMALS 1704931200000 Date_getTime historySix))
      = length historySix"
    by blast
  with l show ?thesis using distinct_ANIMALS historySix_in_catalog by simp
qed

text \<open>
  A record of an entity that the catalog does not have is counted for no entity.
  The store takes any animal as a manual result: with a draw of the entity 99 added
  at 15:00 to the six draws of the sample, the history that reaches the analyzer has
  seven records, and the appearances add up to six.
\<close>

lemma historySeven_catalog_records:
  "filter (\<lambda>r. animal_id (hr_animal r) \<in> set (map animal_id ANIMALS)) historySeven = historySix"
  unfolding ids_ANIMALS
  by (simp add: historySeven_def historySix_def formatted_def dragon_def leon_def toro_def
      mkAnimal_def animalMap_def js_def)

theorem foreign_entity_is_not_counted:
  "snd (addManualResult storageSix GUACHARO (js ''2024-01-10'') (js ''15:00'') dragon 5)
   \<and> getHistoricalData
        (fst (snd (getHistoricalResults codeUnitCompare
           (fst (addManualResult storageSix GUACHARO (js ''2024-01-10'') (js ''15:00'') dragon 5))
           GUACHARO (js ''2024-01-11'') 1704931200000 [] []))) None = Inr historySeven
   \<and> length historySeven = 7
   \<and> sum_list (map totalAppearances
         (calculateFrequencyAnalysis ANIMALS 1704931200000 Date_getTime historySeven)) = 6"
proof -
  have a: "addManualResult storageSix GUACHARO (js ''2024-01-10'') (js ''15:00'') dragon 5 =
      (savePersistentHistory storageSix GUACHARO
         (manualEntry (js ''2024-01-10'') (js ''15:00'') dragon 5 # storedSix), True)"
    by (simp add: addManualResult_def getPersistentHistory_def storageSix_def storedSix_def
        entry_def manualEntry_def Let_def js_def)
  have h: "getHistoricalData
        (fst (snd (getHistoricalResults codeUnitCompare
           (savePersistentHistory storageSix GUACHARO
              (manualEntry (js ''2024-01-10'') (js ''15:00'') dragon 5 # storedSix))
           GUACHARO (js ''2024-01-11'') 1704931200000 [] []))) None = Inr historySeven"
    by (simp add: getHistoricalData_def getHistoricalResults_def getPersistentHistory_def
        savePersistentHistory_def manualEntry_def
        storageSix_def storedSix_def historySeven_def historySix_def entry_def formatted_def
        dragon_def leon_def toro_def mkAnimal_def jsSort_def historyAfter_def Let_def js_def)
  have l: "length historySeven = 7"
    by (simp add: historySeven_def historySix_def)
  have "sum_list (map totalAppearances
         (calculateFrequencyAnalysis ANIMALS 1704931200000 Date_getTime historySeven))
      = length (filter (\<lambda>r. animal_id (hr_animal r) \<in> set (map animal_id ANIMALS)) historySeven)"
    unfolding sum_totalAppearances using distinct_ANIMALS by (rule sum_counts)
  also have "\<dots> = 6"
    unfolding historySeven_catalog_records by (simp add: historySix_def)
  finally show ?thesis using a h l by simp
qed

section \<open>The empty history\<close>

lemma analyzeAnimal_empty:
  "analyzeAnimal n today getTime [] a =
     \<lparr> animalId = animal_id a, fa_animal = a, totalAppearances = 0, totalFrequency = 0,
       recentAppearances5 = 0, recentAppearances10 = 0, recentAppearances20 = 0,
       recentFrequency5 = 0, recentFrequency10 = 0, recentFrequency20 = 0,
       daysSinceLastAppearance = 999, lastAppearanceDate = None,
       isHot = (0 > 100 / real n * 1.5), isCold = (0 < 100 / real n * 0.5) \<rparr>"
  by (simp add: analyzeAnimal_def Let_def sliceLast_def)

lemma scores_empty:
  assumes "catalog \<noteq> []"
  shows "calculatePredictionScores (calculateFrequencyAnalysis catalog today getTime []) w =
    map (emptyScore (length catalog) w) catalog"
proof -
  have m1: "Math_max (map recentFrequency10 (calculateFrequencyAnalysis catalog today getTime [])) = Some 0"
    using assms by (simp add: calculateFrequencyAnalysis_def comp_def analyzeAnimal_empty Math_max_const)
  have m2: "Math_max (map totalFrequency (calculateFrequencyAnalysis catalog today getTime [])) = Some 0"
    using assms by (simp add: calculateFrequencyAnalysis_def comp_def analyzeAnimal_empty Math_max_const)
  have m3: "Math_max (map (\<lambda>f. real_of_int (daysSinceLastAppearance f))
       (calculateFrequencyAnalysis catalog today getTime [])) = Some 999"
    using assms by (simp add: calculateFrequencyAnalysis_def comp_def analyzeAnimal_empty Math_max_const)
  show ?thesis
    unfolding calculatePredictionScores_def Let_def m1 m2 m3
    by (simp add: calculateFrequencyAnalysis_def positive_def analyzeAnimal_empty emptyScore_def
        determineConfidence_def generateExplanation_def Let_def)
qed

lemma categorize_equal_scores:
  assumes "\<forall>p \<in> set ps. score p = c"
  shows "categorizeAnimals ps = map (\<lambda>(index, sc). assignRank index sc) (enumerate 0 ps)"
proof -
  have "jsSort (\<lambda>a b. score b - score a > 0) ps = ps"
    using assms by (intro jsSort_unchanged) simp
  then show ?thesis by (simp add: categorizeAnimals_def Let_def)
qed

lemma allAnimals_empty:
  assumes "catalog \<noteq> []"
  shows "allAnimals (analyzeHistoricalData catalog today getTime todayIso lid [] w) =
     map (\<lambda>(index, sc). assignRank index sc)
       (enumerate 0 (map (emptyScore (length catalog) w) catalog))"
proof -
  have "categorizeAnimals (map (emptyScore (length catalog) w) catalog) =
     map (\<lambda>(index, sc). assignRank index sc)
       (enumerate 0 (map (emptyScore (length catalog) w) catalog))"
    by (rule categorize_equal_scores[where c = "w_daysSinceAppearance w * 100"])
       (auto simp: emptyScore_def)
  then show ?thesis
    using assms by (simp add: analyzeHistoricalData_def Let_def scores_empty)
qed

lemma allAnimals_empty_ANIMALS:
  "allAnimals (analyzeHistoricalData ANIMALS today getTime todayIso lid [] w) =
     map (\<lambda>(index, sc). assignRank index sc) (enumerate 0 (map (emptyScore 37 w) ANIMALS))"
  using allAnimals_empty[OF ANIMALS_nonempty] by (simp add: length_ANIMALS)

lemma replicate_ANIMALS: "map (\<lambda>_. c) ANIMALS = replicate 37 c"
  by (simp add: map_replicate_const length_ANIMALS)

lemma scores_empty_ANIMALS:
  "map score (allAnimals (analyzeHistoricalData ANIMALS today getTime todayIso lid [] w))
        = replicate 37 (w_daysSinceAppearance w * 100)"
  unfolding allAnimals_empty_ANIMALS
  by (subst map_enumerate_field[where h = score])
     (simp_all add: assignRank_def Let_def emptyScore_def comp_def replicate_ANIMALS)

text \<open>
  C3, as amended. On the empty history the analysis returns a value (the model has
  no failing branch): one entry for each of the 37 catalog entities, in catalog
  order, with every count and every percentage zero, no last appearance and 999
  days since it; the ranking lists the 37 entities in catalog order with the ranks
  1 to 37; and every score is the same, 100 times the weight of the absence signal,
  since 999 days normalise to 1.
\<close>

theorem analyzeHistoricalData_empty_history:
  "map animalId (calculateFrequencyAnalysis ANIMALS today getTime []) = map animal_id ANIMALS
   \<and> length (calculateFrequencyAnalysis ANIMALS today getTime []) = 37
   \<and> map totalAppearances (calculateFrequencyAnalysis ANIMALS today getTime []) = replicate 37 0
   \<and> map totalFrequency (calculateFrequencyAnalysis ANIMALS today getTime []) = replicate 37 0
   \<and> map recentAppearances5 (calculateFrequencyAnalysis ANIMALS today getTime []) = replicate 37 0
   \<and> map recentAppearances10 (calculateFrequencyAnalysis ANIMALS today getTime []) = replicate 37 0
   \<and> map recentAppearances20 (calculateFrequencyAnalysis ANIMALS today getTime []) = replicate 37 0
   \<and> map recentFrequency5 (calculateFrequencyAnalysis ANIMALS today getTime []) = replicate 37 0
   \<and> map recentFrequency10 (calculateFrequencyAnalysis ANIMALS today getTime []) = replicate 37 0
   \<and> map recentFrequency20 (calculateFrequencyAnalysis ANIMALS today getTime []) = replicate 37 0
   \<and> map daysSinceLastAppearance (calculateFrequencyAnalysis ANIMALS today getTime [])
        = replicate 37 999
   \<and> map lastAppearanceDate (calculateFrequencyAnalysis ANIMALS today getTime [])
        = replicate 37 None
   \<and> map ps_animalId (allAnimals (analyzeHistoricalData ANIMALS today getTime todayIso lid [] w))
        = map animal_id ANIMALS
   \<and> map score (allAnimals (analyzeHistoricalData ANIMALS today getTime todayIso lid [] w))
        = replicate 37 (w_daysSinceAppearance w * 100)
   \<and> map ps_daysSinceLastAppearance
         (allAnimals (analyzeHistoricalData ANIMALS today getTime todayIso lid [] w))
        = replicate 37 999
   \<and> map rank (allAnimals (analyzeHistoricalData ANIMALS today getTime todayIso lid [] w))
        = [1 ..< 38]"
proof -
  have fa: "calculateFrequencyAnalysis ANIMALS today getTime [] =
      map (analyzeAnimal 37 today getTime []) ANIMALS"
    by (simp add: calculateFrequencyAnalysis_def length_ANIMALS)
  have a1: "map ps_animalId (allAnimals (analyzeHistoricalData ANIMALS today getTime todayIso lid [] w))
        = map animal_id ANIMALS"
    unfolding allAnimals_empty_ANIMALS
    by (subst map_enumerate_field[where h = ps_animalId])
       (simp_all add: assignRank_def Let_def emptyScore_def comp_def)
  have a3: "map ps_daysSinceLastAppearance
         (allAnimals (analyzeHistoricalData ANIMALS today getTime todayIso lid [] w))
        = replicate 37 999"
    unfolding allAnimals_empty_ANIMALS
    by (subst map_enumerate_field[where h = ps_daysSinceLastAppearance])
       (simp_all add: assignRank_def Let_def emptyScore_def comp_def replicate_ANIMALS)
  have a4: "map rank (allAnimals (analyzeHistoricalData ANIMALS today getTime todayIso lid [] w))
        = [1 ..< 38]"
    unfolding allAnimals_empty_ANIMALS
    by (simp add: map_rank_enumerate length_ANIMALS del: map_map)
  have f: "\<And>g. map g (calculateFrequencyAnalysis ANIMALS today getTime []) =
      map (\<lambda>a. g (analyzeAnimal 37 today getTime [] a)) ANIMALS"
    by (simp add: fa)
  have f0: "map animalId (calculateFrequencyAnalysis ANIMALS today getTime []) = map animal_id ANIMALS"
    unfolding f by (simp add: analyzeAnimal_empty)
  have f1: "length (calculateFrequencyAnalysis ANIMALS today getTime []) = 37"
    by (simp add: fa length_ANIMALS)
  show ?thesis
    unfolding f a1 scores_empty_ANIMALS a3 a4 analyzeAnimal_empty
    using f0[unfolded f analyzeAnimal_empty] f1
    by (simp add: replicate_ANIMALS)
qed

text \<open>Under the default weights every score on the empty history is 20, not 0.\<close>

theorem empty_history_scores_are_twenty:
  "map score (allAnimals (analyzeHistoricalData ANIMALS 1704931200000 Date_getTime
      (js ''2024-01-11'') GUACHARO [] DEFAULT_WEIGHTS)) = replicate 37 20
   \<and> map score (allAnimals (analyzeHistoricalData ANIMALS 1704931200000 Date_getTime
      (js ''2024-01-11'') GUACHARO [] DEFAULT_WEIGHTS)) \<noteq> replicate 37 0"
  unfolding scores_empty_ANIMALS by (simp add: DEFAULT_WEIGHTS_def)

section \<open>Recency\<close>

text \<open>
  What the analyzer reads, for every history: its window is the first \<open>w\<close> records of
  the reversed array, and its last appearance is the first match of the reversed
  array. On an array that is sorted most recent first these are the \<open>w\<close> oldest
  records and the oldest match.
\<close>

lemma sliceLast_rev: "sliceLast w xs = rev (take w (rev xs))"
  by (simp add: sliceLast_def take_rev)

lemma last_filter_find_rev:
  "(if filter P xs = [] then None else Some (last (filter P xs))) = find P (rev xs)"
proof (induction xs rule: rev_induct)
  case Nil
  then show ?case by simp
next
  case (snoc x xs)
  show ?case
  proof (cases "P x")
    case True
    then show ?thesis by simp
  next
    case False
    with snoc show ?thesis by (simp split: if_splits)
  qed
qed

lemma lastAppearanceDate_rev:
  "lastAppearanceDate (analyzeAnimal n today getTime results a) =
     map_option hr_date (find (\<lambda>r. animal_id (hr_animal r) = animal_id a) (rev results))"
  using last_filter_find_rev[of "\<lambda>r. animal_id (hr_animal r) = animal_id a" results]
  by (simp add: analyzeAnimal_def Let_def)

lemma recentAppearances_rev:
  "recentAppearances5 (analyzeAnimal n today getTime results a) =
     length (filter (\<lambda>r. animal_id (hr_animal r) = animal_id a) (rev (take 5 (rev results))))"
  "recentAppearances10 (analyzeAnimal n today getTime results a) =
     length (filter (\<lambda>r. animal_id (hr_animal r) = animal_id a) (rev (take 10 (rev results))))"
  "recentAppearances20 (analyzeAnimal n today getTime results a) =
     length (filter (\<lambda>r. animal_id (hr_animal r) = animal_id a) (rev (take 20 (rev results))))"
  by (simp_all add: analyzeAnimal_def Let_def sliceLast_rev)

text \<open>
  C1, evaluated on six draws of one day. The store delivers them most recent
  first, Leon (14:00) at the head. The five most recent records hold Leon once; the
  analyzer's window, the last five elements of the array, is the five oldest
  records and counts Leon zero times, with a recent frequency of zero.
\<close>

theorem recent_window_is_the_oldest_records:
  "getHistoricalData
      (fst (snd (getHistoricalResults codeUnitCompare storageSix GUACHARO
         (js ''2024-01-11'') 1704931200000 [] []))) None = Inr historySix
   \<and> length (filter (\<lambda>r. animal_id (hr_animal r) = animal_id leon)
        (spec_recentWindow 5 historySix)) = 1
   \<and> recentAppearances5 (analyzeAnimal 37 1704931200000 Date_getTime historySix leon) = 0
   \<and> recentFrequency5 (analyzeAnimal 37 1704931200000 Date_getTime historySix leon) = 0"
  by (simp add: getHistoricalData_def getHistoricalResults_def getPersistentHistory_def
      storageSix_def storedSix_def historySix_def entry_def formatted_def leon_def toro_def
      mkAnimal_def jsSort_def historyAfter_def Let_def js_def spec_recentWindow_def
      analyzeAnimal_def sliceLast_def)

text \<open>
  C2, evaluated on two draws of Leon, of 1 January and of 10 January 2024, with
  11 January as today. The store delivers the draw of 10 January first; it is the
  most recent match, one day ago. The analyzer reads the last matching element of
  the array, the draw of 1 January, and reports that date and ten days. For Toro,
  which never appears, it reports no date and 999 days.
\<close>

theorem last_appearance_is_the_oldest_match:
  "getHistoricalData
      (fst (snd (getHistoricalResults codeUnitCompare storageTwo GUACHARO
         (js ''2024-01-11'') 1704931200000 [] []))) None = Inr historyTwo
   \<and> map_option hr_date (spec_mostRecentMatch historyTwo leon) = Some (js ''2024-01-10'')
   \<and> (1704931200000 - Date_getTime (js ''2024-01-10'')) div (1000 * 60 * 60 * 24) = 1
   \<and> lastAppearanceDate (analyzeAnimal 37 1704931200000 Date_getTime historyTwo leon)
        = Some (js ''2024-01-01'')
   \<and> daysSinceLastAppearance (analyzeAnimal 37 1704931200000 Date_getTime historyTwo leon) = 10
   \<and> lastAppearanceDate (analyzeAnimal 37 1704931200000 Date_getTime historyTwo toro) = None
   \<and> daysSinceLastAppearance (analyzeAnimal 37 1704931200000 Date_getTime historyTwo toro) = 999"
  by (simp add: getHistoricalData_def getHistoricalResults_def getPersistentHistory_def
      storageTwo_def storedTwo_def historyTwo_def entry_def formatted_def leon_def toro_def
      mkAnimal_def jsSort_def historyAfter_def Let_def js_def spec_mostRecentMatch_def
      analyzeAnimal_def Date_getTime_def parseDigits_def daysFromCivil_def)

section \<open>The store\<close>

lemma getPersistentHistory_save:
  "getPersistentHistory (savePersistentHistory st lid h) lid = h"
  by (simp add: getPersistentHistory_def savePersistentHistory_def)

lemma getPersistentHistory_save_other:
  "l \<noteq> lid \<Longrightarrow> getPersistentHistory (savePersistentHistory st lid h) l = getPersistentHistory st l"
  by (simp add: getPersistentHistory_def savePersistentHistory_def)

lemma getPersistentHistory_storageSix: "getPersistentHistory storageSix l = storedSix"
  by (simp add: getPersistentHistory_def storageSix_def)

lemma mergeDraw_cases:
  "mergeDraw todayStr now (h, n) d =
    (case dr_animal d of
       None \<Rightarrow> (h, n)
     | Some a \<Rightarrow>
         if dr_hour d = [] \<or> spec_matches h todayStr (dr_hour d) (animal_id a) then (h, n)
         else (liveEntry todayStr now (dr_hour d) a # h, Suc n))"
proof (cases "dr_animal d")
  case None
  then show ?thesis by (simp add: mergeDraw_def)
next
  case (Some a)
  show ?thesis
  proof (cases "find (\<lambda>e. date e = todayStr \<and> hour e = dr_hour d \<and>
                     animal_id (animal e) = animal_id a) h")
    case None
    then have "\<not> spec_matches h todayStr (dr_hour d) (animal_id a)"
      by (simp add: spec_matches_def find_None_list_ex)
    with None Some show ?thesis by (simp add: mergeDraw_def liveEntry_def)
  next
    case (Some e)
    then have "spec_matches h todayStr (dr_hour d) (animal_id a)"
      using find_Some_list_ex[OF Some] by (simp add: spec_matches_def)
    with Some \<open>dr_animal d = Some a\<close> show ?thesis by (simp add: mergeDraw_def)
  qed
qed











text \<open>
  The history that reaches the analyzer holds no entity that the store and the draws
  of the day did not hold: whatever holds of the animals of the stored entries and
  of the draws (being an entity of the catalog, for one) holds of the animals of
  the delivered records.
\<close>

lemma mergeDraw_entities:
  assumes "\<forall>e \<in> set h. Q (animal e)" and "\<forall>a. dr_animal d = Some a \<longrightarrow> Q a"
  shows "\<forall>e \<in> set (fst (mergeDraw t now (h, n) d)). Q (animal e)"
  using assms by (auto simp: mergeDraw_cases liveEntry_def split: option.splits)

lemma foldl_mergeDraw_entities:
  assumes "\<forall>e \<in> set h. Q (animal e)" and "\<forall>d \<in> set ds. \<forall>a. dr_animal d = Some a \<longrightarrow> Q a"
  shows "\<forall>e \<in> set (fst (foldl (mergeDraw t now) (h, n) ds)). Q (animal e)"
  using assms
proof (induction ds arbitrary: h n)
  case Nil
  then show ?case by simp
next
  case (Cons d ds)
  obtain h1 n1 where s: "mergeDraw t now (h, n) d = (h1, n1)" by (cases "mergeDraw t now (h, n) d")
  have "\<forall>e \<in> set h1. Q (animal e)"
    using mergeDraw_entities[of h Q d t now n] Cons.prems s by simp
  from Cons.IH[OF this, of n1] Cons.prems(2) show ?case by (simp add: s)
qed

lemma delivered_history_entities:
  assumes st: "\<forall>e \<in> set (getPersistentHistory st lotteryId). Q (animal e)"
    and ds: "\<forall>d \<in> set todayDraws. \<forall>a. dr_animal d = Some a \<longrightarrow> Q a"
    and out: "getHistoricalData
      (fst (snd (getHistoricalResults lc st lotteryId todayStr now todayDraws srcs))) maxResults
        = Inr results"
  shows "\<forall>r \<in> set results. Q (hr_animal r)"
proof -
  obtain h1 n1 where f1:
    "foldl (mergeDraw todayStr now) (getPersistentHistory st lotteryId, 0) todayDraws = (h1, n1)"
    by (cases "foldl (mergeDraw todayStr now) (getPersistentHistory st lotteryId, 0) todayDraws")
  have h1: "\<forall>e \<in> set h1. Q (animal e)"
    using foldl_mergeDraw_entities[OF st ds, of todayStr now 0] by (simp add: f1)
  have hist: "history (fst (snd (getHistoricalResults lc st lotteryId todayStr now todayDraws srcs)))
      = jsSort (historyAfter lc) h1"
    by (simp add: getHistoricalResults_def Let_def f1)
  have "\<forall>e \<in> set (jsSort (historyAfter lc) h1). Q (animal e)"
    using h1 by (simp add: set_jsSort)
  then have "\<forall>e \<in> set (take k (jsSort (historyAfter lc) h1)). Q (animal e)" for k
    by (meson in_set_takeD)
  with out hist \<open>\<forall>e \<in> set (jsSort (historyAfter lc) h1). Q (animal e)\<close> show ?thesis
    by (auto simp: getHistoricalData_def Let_def split: if_splits option.splits)
qed


lemma storedSix_has_leon_at_14:
  "spec_matches storedSix (js ''2024-01-10'') (js ''14:00'') (js ''05'')"
  by (simp add: spec_matches_def storedSix_def entry_def leon_def toro_def mkAnimal_def js_def)





lemma addManualResult_cases:
  "addManualResult st lid d hr a now =
     (if spec_slotTaken (getPersistentHistory st lid) d hr then (st, False)
      else (savePersistentHistory st lid (manualEntry d hr a now # getPersistentHistory st lid), True))"
proof (cases "find (\<lambda>e. date e = d \<and> hour e = hr) (getPersistentHistory st lid)")
  case None
  then have "\<not> spec_slotTaken (getPersistentHistory st lid) d hr"
    by (simp add: spec_slotTaken_def find_None_list_ex)
  then show ?thesis
    by (simp add: addManualResult_def Let_def None manualEntry_def)
next
  case (Some e)
  from find_Some_list_ex[OF this] Some show ?thesis
    by (simp add: addManualResult_def Let_def spec_slotTaken_def)
qed

text \<open>
  C5. \<open>addManualResult\<close> returns true exactly when no record of the lottery's
  history has the same date and hour, whatever entity that record holds. When the
  slot is taken it returns false and the storage is the one before the call; when
  it is free the new manual entry is put in front of the lottery's history. The
  history of another lottery is never touched.
\<close>

theorem addManualResult_exclusive_slot:
  "(snd (addManualResult st lotteryId d hr a now)
      = (\<not> spec_slotTaken (getPersistentHistory st lotteryId) d hr))
   \<and> (spec_slotTaken (getPersistentHistory st lotteryId) d hr \<longrightarrow>
        addManualResult st lotteryId d hr a now = (st, False))
   \<and> (\<not> spec_slotTaken (getPersistentHistory st lotteryId) d hr \<longrightarrow>
        getPersistentHistory (fst (addManualResult st lotteryId d hr a now)) lotteryId
          = manualEntry d hr a now # getPersistentHistory st lotteryId)
   \<and> (l \<noteq> lotteryId \<longrightarrow>
        getPersistentHistory (fst (addManualResult st lotteryId d hr a now)) l
          = getPersistentHistory st l)"
  by (simp add: addManualResult_cases getPersistentHistory_save getPersistentHistory_save_other)

lemma storedSix_slot_14_taken: "spec_slotTaken storedSix (js ''2024-01-10'') (js ''14:00'')"
  by (simp add: spec_slotTaken_def storedSix_def entry_def js_def)

lemma storedSix_slot_15_free: "\<not> spec_slotTaken storedSix (js ''2024-01-10'') (js ''15:00'')"
  by (simp add: spec_slotTaken_def storedSix_def entry_def js_def)

text \<open>On the six stored draws: Toro at 14:00, where Leon stands, is refused and
  nothing changes; Toro at 15:00 is put in front.\<close>

theorem addManualResult_exclusive_slot_witness:
  "addManualResult storageSix GUACHARO (js ''2024-01-10'') (js ''14:00'') toro 5
      = (storageSix, False)
   \<and> snd (addManualResult storageSix GUACHARO (js ''2024-01-10'') (js ''15:00'') toro 5)
   \<and> getPersistentHistory
        (fst (addManualResult storageSix GUACHARO (js ''2024-01-10'') (js ''15:00'') toro 5))
        GUACHARO
      = manualEntry (js ''2024-01-10'') (js ''15:00'') toro 5 # storedSix
   \<and> getPersistentHistory
        (fst (addManualResult storageSix GUACHARO (js ''2024-01-10'') (js ''15:00'') toro 5))
        LOTTO_ACTIVO
      = storedSix"
  using addManualResult_exclusive_slot[where st = storageSix and lotteryId = GUACHARO
      and d = "js ''2024-01-10''" and hr = "js ''14:00''" and a = toro and now = 5
      and l = LOTTO_ACTIVO]
    addManualResult_exclusive_slot[where st = storageSix and lotteryId = GUACHARO
      and d = "js ''2024-01-10''" and hr = "js ''15:00''" and a = toro and now = 5
      and l = LOTTO_ACTIVO]
    storedSix_slot_14_taken storedSix_slot_15_free
  by (simp add: getPersistentHistory_storageSix)

section \<open>The bulk load\<close>

lemma findAnimalByNumber_05: "findAnimalByNumber (js ''05'') = Some (TableAnimal leon)"
  by (simp add: findAnimalByNumber_def animalMap_def mkAnimal_def js_def leon_def)

lemma findAnimalByNumber_02: "findAnimalByNumber (js ''02'') = Some (TableAnimal toro)"
  by (simp add: findAnimalByNumber_def animalMap_def mkAnimal_def js_def toro_def)

lemma findAnimalByNumber_99: "findAnimalByNumber (js ''99'') = None"
  by (simp add: findAnimalByNumber_def animalMap_def objectPrototypeNames_def js_def)

lemma findAnimalByNumber_constructor:
  "findAnimalByNumber (js ''constructor'') = Some (InheritedProperty (js ''constructor''))"
  by (simp add: findAnimalByNumber_def animalMap_def objectPrototypeNames_def js_def)

lemma spec_loadMatches_asLoaded:
  "spec_loadMatches (map asLoaded h) d hr x = spec_matches h d hr x"
  by (induction h) (simp_all add: spec_loadMatches_def spec_matches_def entityIdOf_def asLoaded_def)

lemma asStored_asLoaded: "those (map (asStored \<circ> asLoaded) h) = Some h"
  by (induction h) (simp_all add: asStored_def asLoaded_def)

lemma entityIdOf_asLoaded:
  "(entityIdOf (asLoaded e) = Some (le_number (asLoaded e))) = (number e = animal_id (animal e))"
  by (auto simp: entityIdOf_def asLoaded_def)

text \<open>On an array whose records all have their entity's id as number, the loop body
  is the step of the specification.\<close>

lemma loadItem_spec_loadCandidate:
  assumes inv: "\<forall>e \<in> set h. entityIdOf e = Some (le_number e)"
  shows "loadItem lid (h, c) item = spec_loadCandidate lid (h, c) item"
proof -
  have k: "list_ex (\<lambda>e. le_date e = item_date item \<and> le_hour e = item_time item \<and>
                        le_number e = item_animalNumber item) h
      = spec_loadMatches h (item_date item) (item_time item) (item_animalNumber item)"
    using inv by (auto simp: spec_loadMatches_def list_ex_iff)
  show ?thesis
  proof (cases "find (\<lambda>e. le_date e = item_date item \<and> le_hour e = item_time item \<and>
                      le_number e = item_animalNumber item) h")
    case None
    then have "\<not> spec_loadMatches h (item_date item) (item_time item) (item_animalNumber item)"
      using k by (simp add: find_None_list_ex)
    with None show ?thesis by (simp add: loadItem_def spec_loadCandidate_def)
  next
    case (Some e)
    then have "spec_loadMatches h (item_date item) (item_time item) (item_animalNumber item)"
      using k find_Some_list_ex[OF Some] by simp
    with Some show ?thesis by (simp add: loadItem_def spec_loadCandidate_def)
  qed
qed

lemma loadItem_grows: "set h \<subseteq> set (fst (loadItem lid (h, c) item))"
  by (auto simp: loadItem_def split: option.splits)

lemma foldl_loadItem_spec_loadCandidate:
  assumes "\<forall>e \<in> set (fst (foldl (loadItem lid) (h, c) items)). entityIdOf e = Some (le_number e)"
  shows "foldl (loadItem lid) (h, c) items = foldl (spec_loadCandidate lid) (h, c) items"
  using assms
proof (induction items rule: rev_induct)
  case Nil
  show ?case by simp
next
  case (snoc x xs)
  obtain h' c' where p: "foldl (loadItem lid) (h, c) xs = (h', c')"
    by (cases "foldl (loadItem lid) (h, c) xs")
  from snoc.prems p
  have "\<forall>e \<in> set (fst (loadItem lid (h', c') x)). entityIdOf e = Some (le_number e)"
    by simp
  with loadItem_grows[of h' lid c' x]
  have inv: "\<forall>e \<in> set h'. entityIdOf e = Some (le_number e)"
    by blast
  with snoc.IH p have "foldl (spec_loadCandidate lid) (h, c) xs = (h', c')"
    by simp
  with p loadItem_spec_loadCandidate[OF inv] show ?case by simp
qed

text \<open>A candidate whose number is no inherited name is loaded, if at all, with the
  entity that has this number as id, so the records stay as the claim supposes them.\<close>

lemma loadItem_number_is_id:
  assumes inv: "\<forall>e \<in> set h. entityIdOf e = Some (le_number e)"
    and own: "item_animalNumber item \<notin> set objectPrototypeNames"
  shows "\<forall>e \<in> set (fst (loadItem lid (h, c) item)). entityIdOf e = Some (le_number e)"
proof (cases "findAnimalByNumber (item_animalNumber item)")
  case None
  with inv show ?thesis by (simp add: loadItem_def split: option.splits)
next
  case (Some v)
  from findAnimalByNumber_own[OF own Some] obtain a
    where "v = TableAnimal a" and "animal_id a = item_animalNumber item" by blast
  with Some inv show ?thesis
    by (simp add: loadItem_def entityIdOf_def split: option.splits)
qed

lemma foldl_loadItem_number_is_id:
  assumes "\<forall>e \<in> set h. entityIdOf e = Some (le_number e)"
    and "\<forall>item \<in> set items. item_animalNumber item \<notin> set objectPrototypeNames"
  shows "\<forall>e \<in> set (fst (foldl (loadItem lid) (h, c) items)). entityIdOf e = Some (le_number e)"
  using assms
proof (induction items arbitrary: h c)
  case Nil
  then show ?case by simp
next
  case (Cons x xs)
  obtain h' c' where p: "loadItem lid (h, c) x = (h', c')"
    by (cases "loadItem lid (h, c) x")
  from loadItem_number_is_id[of h x lid c] Cons.prems p
  have "\<forall>e \<in> set h'. entityIdOf e = Some (le_number e)" by simp
  from Cons.IH[OF this] Cons.prems(2) p show ?case by simp
qed

lemma savedRecords_loadMassiveHistoricalData:
  "set (savedRecords (loadMassiveHistoricalData lc st lid now items))
     \<subseteq> set (fst (foldl (loadItem lid)
            (map asLoaded (getPersistentHistory st lid),
             \<lparr> loaded = 0, duplicates = 0, errors = 0 \<rparr>) items))"
  by (simp add: loadMassiveHistoricalData_def savedRecords_def case_prod_beta set_jsSort)

lemma saved_records_number_is_id:
  assumes "\<forall>e \<in> set (getPersistentHistory st lid). number e = animal_id (animal e)"
    and "\<forall>item \<in> set items. item_animalNumber item \<notin> set objectPrototypeNames"
  shows "\<forall>e \<in> set (savedRecords (loadMassiveHistoricalData lc st lid now items)).
           entityIdOf e = Some (le_number e)"
proof -
  have "\<forall>e \<in> set (map asLoaded (getPersistentHistory st lid)). entityIdOf e = Some (le_number e)"
    using assms(1) by (simp add: entityIdOf_asLoaded)
  from foldl_loadItem_number_is_id[OF this assms(2)] savedRecords_loadMassiveHistoricalData
  show ?thesis by blast
qed

text \<open>A call within seven days of the last load, or with nothing from the archive,
  writes nothing and counts nothing.\<close>

lemma loadMassiveHistoricalData_no_write:
  "massive_load_item st lid = Some lastDate \<Longrightarrow> now - lastDate < 7 * (1000 * 60 * 60 * 24) \<Longrightarrow>
     loadMassiveHistoricalData lc st lid now items =
       \<lparr> savedHistory = None, massiveLoadMark = None,
         lo_result = \<lparr> lr_success = True, lr_loaded = 0, lr_duplicates = 0, lr_errors = 0 \<rparr> \<rparr>"
  "massive_load_item st lid = None \<Longrightarrow>
     loadMassiveHistoricalData lc st lid now [] =
       \<lparr> savedHistory = None, massiveLoadMark = None,
         lo_result = \<lparr> lr_success = False, lr_loaded = 0, lr_duplicates = 0, lr_errors = 0 \<rparr> \<rparr>"
  by (simp_all add: loadMassiveHistoricalData_def)

text \<open>
  C9. Let the last bulk load be at least seven days old (or none), let the archive
  give candidates, and let every record that the call saves, the persisted ones and
  the loaded ones, have its entity's id as number. Then the call is the bulk load of
  the specification on the persisted history: it saves the array that the steps of
  the specification build, sorted, marks the time, and returns their counters; a
  candidate of the lottery is counted as a duplicate, and skipped, exactly when a
  record matches it on (date, hour, entity id), its number being the id. When a
  number resolves to an entity of the table and the hour is not empty, a record
  matches on this key exactly when the live merge, given the same date, hour and
  entity, skips the draw.
\<close>

theorem bulk_load_same_key_as_live_merge:
  assumes due: "case massive_load_item st lotteryId of
                  None \<Rightarrow> True
                | Some lastDate \<Rightarrow> 7 * (1000 * 60 * 60 * 24) \<le> now - lastDate"
    and batch: "convertedData \<noteq> []"
    and recs: "\<forall>e \<in> set (savedRecords (loadMassiveHistoricalData lc st lotteryId now convertedData)).
                  entityIdOf e = Some (le_number e)"
  shows "loadMassiveHistoricalData lc st lotteryId now convertedData
           = spec_bulkLoad lc (getPersistentHistory st lotteryId) lotteryId now convertedData
     \<and> (findAnimalByNumber x = Some (TableAnimal a) \<and> hr \<noteq> [] \<longrightarrow>
          spec_loadMatches (map asLoaded h) d hr x
            = (mergeDraw d t (h, n)
                 \<lparr> dr_hour = hr, dr_label = lbl, dr_animal = Some a,
                   isCompleted = ic, isNext = nx \<rparr> = (h, n)))"
proof -
  let ?init = "(map asLoaded (getPersistentHistory st lotteryId),
                \<lparr> loaded = 0, duplicates = 0, errors = 0 \<rparr>)"
  have unlimited: "\<not> (case massive_load_item st lotteryId of
                  None \<Rightarrow> False
                | Some lastDate \<Rightarrow> now - lastDate < 7 * (1000 * 60 * 60 * 24))"
    using due by (simp split: option.splits)
  have s: "savedRecords (loadMassiveHistoricalData lc st lotteryId now convertedData)
      = jsSort (loadedAfter lc) (fst (foldl (loadItem lotteryId) ?init convertedData))"
    using unlimited batch
    by (simp add: loadMassiveHistoricalData_def savedRecords_def case_prod_beta)
  have "\<forall>e \<in> set (fst (foldl (loadItem lotteryId) ?init convertedData)).
          entityIdOf e = Some (le_number e)"
    using recs unfolding s by (simp add: set_jsSort)
  then have f: "foldl (loadItem lotteryId) ?init convertedData
      = foldl (spec_loadCandidate lotteryId) ?init convertedData"
    by (rule foldl_loadItem_spec_loadCandidate)
  have a: "loadMassiveHistoricalData lc st lotteryId now convertedData
           = spec_bulkLoad lc (getPersistentHistory st lotteryId) lotteryId now convertedData"
    using unlimited batch by (simp add: loadMassiveHistoricalData_def spec_bulkLoad_def f)
  have b: "spec_loadMatches (map asLoaded h) d hr x
            = (mergeDraw d t (h, n)
                 \<lparr> dr_hour = hr, dr_label = lbl, dr_animal = Some a,
                   isCompleted = ic, isNext = nx \<rparr> = (h, n))"
    if r: "findAnimalByNumber x = Some (TableAnimal a)" and nonempty: "hr \<noteq> []"
  proof -
    have "animal_id a = x" using findAnimalByNumber_id[OF r] .
    then show ?thesis using nonempty by (simp add: mergeDraw_cases spec_loadMatches_asLoaded)
  qed
  show ?thesis using a b by blast
qed

text \<open>The sort of the loader on entries of the store, and the step of the specification
  on them.\<close>

lemma insertSorted_map:
  "(\<And>a b. after' (f a) (f b) = after a b) \<Longrightarrow>
   insertSorted after' (f x) (map f ys) = map f (insertSorted after x ys)"
  by (induction ys) simp_all

lemma jsSort_map:
  assumes "\<And>a b. after' (f a) (f b) = after a b"
  shows "jsSort after' (map f xs) = map f (jsSort after xs)"
  unfolding jsSort_def
  by (induction xs) (simp_all add: insertSorted_map[where after' = after' and f = f and after = after, OF assms])

lemma jsSort_asLoaded:
  "jsSort (loadedAfter lc) (map asLoaded xs) = map asLoaded (jsSort (historyAfter lc) xs)"
  by (rule jsSort_map) (simp add: loadedAfter_def historyAfter_def asLoaded_def)

lemma spec_loadCandidate_stored:
  "spec_loadCandidate lid (map asLoaded h, c) item =
    (if lotteryType item \<noteq> (if lid = LOTTO_ACTIVO then lotto_activo else guacharo_activo)
     then (map asLoaded h, c)
     else if spec_matches h (item_date item) (item_time item) (item_animalNumber item)
     then (map asLoaded h, c\<lparr> duplicates := duplicates c + 1 \<rparr>)
     else
       (case findAnimalByNumber (item_animalNumber item) of
          None \<Rightarrow> (map asLoaded h, c\<lparr> errors := errors c + 1 \<rparr>)
        | Some (InheritedProperty p) \<Rightarrow>
            (map asLoaded h @
               [\<lparr> le_date = item_date item, le_hour = item_time item,
                  le_animal = InheritedProperty p, le_animalData = InheritedProperty p,
                  le_number = item_animalNumber item, le_source = LoteriaDehoy,
                  le_timestamp = item_timestamp item \<rparr>],
             c\<lparr> loaded := loaded c + 1 \<rparr>)
        | Some (TableAnimal a) \<Rightarrow>
            (map asLoaded
               (h @ [\<lparr> date = item_date item, hour = item_time item, animal = a,
                       animalData = a, number = item_animalNumber item,
                       source = LoteriaDehoy, timestamp = item_timestamp item \<rparr>]),
             c\<lparr> loaded := loaded c + 1 \<rparr>)))"
  by (simp add: spec_loadCandidate_def spec_loadMatches_asLoaded asLoaded_def
      split: option.splits TableValue.splits)

lemma loadItem_cases:
  "loadItem lid (h, c) item =
    (if lotteryType item \<noteq> (if lid = LOTTO_ACTIVO then lotto_activo else guacharo_activo)
     then (h, c)
     else if list_ex (\<lambda>e. le_date e = item_date item \<and> le_hour e = item_time item \<and>
                           le_number e = item_animalNumber item) h
     then (h, c\<lparr> duplicates := duplicates c + 1 \<rparr>)
     else
       (case findAnimalByNumber (item_animalNumber item) of
          None \<Rightarrow> (h, c\<lparr> errors := errors c + 1 \<rparr>)
        | Some a \<Rightarrow>
            (h @ [\<lparr> le_date = item_date item, le_hour = item_time item, le_animal = a,
                    le_animalData = a, le_number = item_animalNumber item,
                    le_source = LoteriaDehoy, le_timestamp = item_timestamp item \<rparr>],
             c\<lparr> loaded := loaded c + 1 \<rparr>)))"
proof (cases "find (\<lambda>e. le_date e = item_date item \<and> le_hour e = item_time item \<and>
                    le_number e = item_animalNumber item) h")
  case None
  then have "\<not> list_ex (\<lambda>e. le_date e = item_date item \<and> le_hour e = item_time item \<and>
                    le_number e = item_animalNumber item) h"
    by (simp add: find_None_list_ex)
  with None show ?thesis by (simp add: loadItem_def)
next
  case (Some e)
  with find_Some_list_ex[OF Some] show ?thesis by (simp add: loadItem_def)
qed

lemma storedSix_number_is_id: "\<forall>e \<in> set storedSix. number e = animal_id (animal e)"
  by (simp add: storedSix_def entry_def leon_def toro_def mkAnimal_def)

lemma sampleBatch_own_numbers:
  "\<forall>item \<in> set sampleBatch. item_animalNumber item \<notin> set objectPrototypeNames"
  by (simp add: sampleBatch_def sampleItem_def archiveItem_def objectPrototypeNames_def js_def)

lemma sampleBatch_step1:
  "spec_loadCandidate GUACHARO
      (map asLoaded storedSix, \<lparr> loaded = 0, duplicates = 0, errors = 0 \<rparr>) sampleItem
    = (map asLoaded storedSix, \<lparr> loaded = 0, duplicates = 1, errors = 0 \<rparr>)"
  using storedSix_has_leon_at_14
  by (simp add: spec_loadCandidate_stored sampleItem_def)

lemma storedSix_no_toro_15:
  "\<not> spec_matches storedSix (js ''2024-01-10'') (js ''15:00'') (js ''02'')"
  by (simp add: spec_matches_def storedSix_def entry_def leon_def toro_def mkAnimal_def js_def)

lemma sampleBatch_step2:
  "spec_loadCandidate GUACHARO
      (map asLoaded storedSix, \<lparr> loaded = 0, duplicates = 1, errors = 0 \<rparr>)
      (archiveItem ''2024-01-10'' ''15:00'' guacharo_activo ''02'')
    = (map asLoaded (storedSix @ [loadedToro ''15:00'']),
       \<lparr> loaded = 1, duplicates = 1, errors = 0 \<rparr>)"
  using storedSix_no_toro_15
  by (subst spec_loadCandidate_stored)
     (simp add: archiveItem_def findAnimalByNumber_02 loadedToro_def)

lemma loaded_toro_15:
  "spec_matches (storedSix @ [loadedToro ''15:00'']) (js ''2024-01-10'') (js ''15:00'') (js ''02'')"
  by (simp add: spec_matches_def loadedToro_def toro_def mkAnimal_def)

lemma sampleBatch_step3:
  "spec_loadCandidate GUACHARO
      (map asLoaded (storedSix @ [loadedToro ''15:00'']),
       \<lparr> loaded = 1, duplicates = 1, errors = 0 \<rparr>)
      (archiveItem ''2024-01-10'' ''15:00'' guacharo_activo ''02'')
    = (map asLoaded (storedSix @ [loadedToro ''15:00'']),
       \<lparr> loaded = 1, duplicates = 2, errors = 0 \<rparr>)"
  using loaded_toro_15
  by (subst spec_loadCandidate_stored) (simp add: archiveItem_def)

lemma loaded_no_toro_14:
  "\<not> spec_matches (storedSix @ [loadedToro ''15:00'']) (js ''2024-01-10'') (js ''14:00'') (js ''02'')"
  by (simp add: spec_matches_def storedSix_def loadedToro_def entry_def leon_def toro_def
      mkAnimal_def js_def)

lemma sampleBatch_step4:
  "spec_loadCandidate GUACHARO
      (map asLoaded (storedSix @ [loadedToro ''15:00'']),
       \<lparr> loaded = 1, duplicates = 2, errors = 0 \<rparr>)
      (archiveItem ''2024-01-10'' ''14:00'' guacharo_activo ''02'')
    = (map asLoaded ((storedSix @ [loadedToro ''15:00'']) @ [loadedToro ''14:00'']),
       \<lparr> loaded = 2, duplicates = 2, errors = 0 \<rparr>)"
  using loaded_no_toro_14
  by (subst spec_loadCandidate_stored)
     (simp add: archiveItem_def findAnimalByNumber_02 loadedToro_def)

lemma loaded_no_99:
  "\<not> spec_matches ((storedSix @ [loadedToro ''15:00'']) @ [loadedToro ''14:00''])
       (js ''2024-01-10'') (js ''16:00'') (js ''99'')"
  by (simp add: spec_matches_def storedSix_def loadedToro_def entry_def leon_def toro_def
      mkAnimal_def js_def)

lemma sampleBatch_step5:
  "spec_loadCandidate GUACHARO
      (map asLoaded ((storedSix @ [loadedToro ''15:00'']) @ [loadedToro ''14:00'']),
       \<lparr> loaded = 2, duplicates = 2, errors = 0 \<rparr>)
      (archiveItem ''2024-01-10'' ''16:00'' guacharo_activo ''99'')
    = (map asLoaded ((storedSix @ [loadedToro ''15:00'']) @ [loadedToro ''14:00'']),
       \<lparr> loaded = 2, duplicates = 2, errors = 1 \<rparr>)"
  using loaded_no_99
  by (subst spec_loadCandidate_stored) (simp add: archiveItem_def findAnimalByNumber_99)

lemma sampleBatch_step6:
  "spec_loadCandidate GUACHARO (h, c) (archiveItem ''2024-01-10'' ''09:00'' lotto_activo ''03'')
     = (h, c)"
  by (simp add: spec_loadCandidate_def archiveItem_def)

lemma jsSort_storedLoaded:
  "jsSort (historyAfter codeUnitCompare)
      ((storedSix @ [loadedToro ''15:00'']) @ [loadedToro ''14:00'']) = storedLoaded"
  by (simp add: storedSix_def storedLoaded_def loadedToro_def entry_def jsSort_def
      historyAfter_def Let_def js_def)

lemma spec_bulkLoad_sampleBatch:
  "spec_bulkLoad codeUnitCompare storedSix GUACHARO 5 sampleBatch =
     \<lparr> savedHistory = Some (map asLoaded storedLoaded), massiveLoadMark = Some 5,
       lo_result = \<lparr> lr_success = True, lr_loaded = 2, lr_duplicates = 2, lr_errors = 1 \<rparr> \<rparr>"
  by (simp only: spec_bulkLoad_def sampleBatch_def foldl.simps sampleBatch_step1
      sampleBatch_step2 sampleBatch_step3 sampleBatch_step4 sampleBatch_step5
      sampleBatch_step6 Let_def prod.case jsSort_asLoaded jsSort_storedLoaded)
     simp

text \<open>
  On the six stored draws, the sample batch: Leon at 14:00 is a duplicate of a
  stored draw, as the live merge skips it; Toro at 15:00 is loaded once and its
  repetition is a duplicate; Toro at 14:00, the hour of Leon, is loaded; the number
  99 is an error; the draw of the other lottery is passed over. The store then has
  the eight draws, sorted, and the time of the load.
\<close>

theorem bulk_load_same_key_witness:
  "loadMassiveHistoricalData codeUnitCompare storageSix GUACHARO 5 sampleBatch =
     \<lparr> savedHistory = Some (map asLoaded storedLoaded), massiveLoadMark = Some 5,
       lo_result = \<lparr> lr_success = True, lr_loaded = 2, lr_duplicates = 2, lr_errors = 1 \<rparr> \<rparr>
   \<and> map_option (\<lambda>s. (getPersistentHistory s GUACHARO, massive_load_item s GUACHARO))
        (storageAfterLoad storageSix GUACHARO
           (loadMassiveHistoricalData codeUnitCompare storageSix GUACHARO 5 sampleBatch))
      = Some (storedLoaded, Some 5)
   \<and> spec_loadMatches (map asLoaded storedSix) (js ''2024-01-10'') (js ''14:00'') (js ''05'')
   \<and> mergeDraw (js ''2024-01-10'') 1 (storedSix, 0) (drawOf ''14:00'' leon) = (storedSix, 0)"
proof -
  have due: "case massive_load_item storageSix GUACHARO of
               None \<Rightarrow> True
             | Some lastDate \<Rightarrow> 7 * (1000 * 60 * 60 * 24) \<le> 5 - lastDate"
    by (simp add: storageSix_def)
  have batch: "sampleBatch \<noteq> []"
    by (simp add: sampleBatch_def)
  have recs: "\<forall>e \<in> set (savedRecords
        (loadMassiveHistoricalData codeUnitCompare storageSix GUACHARO 5 sampleBatch)).
      entityIdOf e = Some (le_number e)"
    using storedSix_number_is_id sampleBatch_own_numbers
    by (intro saved_records_number_is_id) (simp_all add: getPersistentHistory_storageSix)
  have hne: "js ''14:00'' \<noteq> []"
    by (simp add: js_def)
  note T = bulk_load_same_key_as_live_merge[OF due batch recs,
      where x = "js ''05''" and a = leon and hr = "js ''14:00''" and h = storedSix
        and d = "js ''2024-01-10''" and t = 1 and n = 0 and lbl = "js ''14:00''"
        and ic = True and nx = False]
  from T have l: "loadMassiveHistoricalData codeUnitCompare storageSix GUACHARO 5 sampleBatch =
     \<lparr> savedHistory = Some (map asLoaded storedLoaded), massiveLoadMark = Some 5,
       lo_result = \<lparr> lr_success = True, lr_loaded = 2, lr_duplicates = 2, lr_errors = 1 \<rparr> \<rparr>"
    by (simp add: getPersistentHistory_storageSix spec_bulkLoad_sampleBatch)
  have m: "spec_loadMatches (map asLoaded storedSix) (js ''2024-01-10'') (js ''14:00'') (js ''05'')"
    using storedSix_has_leon_at_14 by (simp add: spec_loadMatches_asLoaded)
  from T findAnimalByNumber_05 hne m
  have "mergeDraw (js ''2024-01-10'') 1 (storedSix, 0)
      \<lparr> dr_hour = js ''14:00'', dr_label = js ''14:00'', dr_animal = Some leon,
        isCompleted = True, isNext = False \<rparr> = (storedSix, 0)"
    by blast
  then have g: "mergeDraw (js ''2024-01-10'') 1 (storedSix, 0) (drawOf ''14:00'' leon) = (storedSix, 0)"
    by (simp add: drawOf_def)
  have a: "map_option (\<lambda>s. (getPersistentHistory s GUACHARO, massive_load_item s GUACHARO))
        (storageAfterLoad storageSix GUACHARO
           (loadMassiveHistoricalData codeUnitCompare storageSix GUACHARO 5 sampleBatch))
      = Some (storedLoaded, Some 5)"
    unfolding l
    by (simp add: storageAfterLoad_def asStored_asLoaded getPersistentHistory_def
        savePersistentHistory_def)
  show ?thesis using l a m g by simp
qed

lemma storedSix_no_constructor:
  "\<not> list_ex (\<lambda>e. le_date e = js ''2024-01-10'' \<and> le_hour e = js ''15:00'' \<and>
                    le_number e = js ''constructor'') (map asLoaded storedSix)"
  by (simp add: storedSix_def entry_def asLoaded_def leon_def toro_def mkAnimal_def js_def)

lemma inheritedBatch_step1:
  "loadItem GUACHARO (map asLoaded storedSix, \<lparr> loaded = 0, duplicates = 0, errors = 0 \<rparr>)
      (archiveItem ''2024-01-10'' ''15:00'' guacharo_activo ''constructor'')
    = (map asLoaded storedSix @ [loadedInherited], \<lparr> loaded = 1, duplicates = 0, errors = 0 \<rparr>)"
  using storedSix_no_constructor
  by (subst loadItem_cases)
     (simp add: archiveItem_def findAnimalByNumber_constructor loadedInherited_def)

lemma inheritedBatch_step2:
  "loadItem GUACHARO
      (map asLoaded storedSix @ [loadedInherited], \<lparr> loaded = 1, duplicates = 0, errors = 0 \<rparr>)
      (archiveItem ''2024-01-10'' ''15:00'' guacharo_activo ''constructor'')
    = (map asLoaded storedSix @ [loadedInherited], \<lparr> loaded = 1, duplicates = 1, errors = 0 \<rparr>)"
  by (subst loadItem_cases) (simp add: archiveItem_def loadedInherited_def)

lemma jsSort_loaded_inherited:
  "jsSort (loadedAfter codeUnitCompare) (map asLoaded storedSix @ [loadedInherited])
     = loadedInherited # map asLoaded storedSorted"
  by (simp add: storedSix_def storedSorted_def loadedInherited_def entry_def asLoaded_def
      jsSort_def loadedAfter_def Let_def js_def)

lemma loadMassiveHistoricalData_inheritedBatch:
  "loadMassiveHistoricalData codeUnitCompare storageSix GUACHARO 5 inheritedBatch =
     \<lparr> savedHistory = Some (loadedInherited # map asLoaded storedSorted),
       massiveLoadMark = Some 5,
       lo_result = \<lparr> lr_success = True, lr_loaded = 1, lr_duplicates = 1, lr_errors = 0 \<rparr> \<rparr>"
proof -
  have "massive_load_item storageSix GUACHARO = None" and "inheritedBatch \<noteq> []"
    by (simp_all add: storageSix_def inheritedBatch_def)
  then show ?thesis
    by (simp only: loadMassiveHistoricalData_def getPersistentHistory_storageSix inheritedBatch_def
        foldl.simps inheritedBatch_step1 inheritedBatch_step2 Let_def prod.case
        jsSort_loaded_inherited option.case if_False list.distinct)
       simp
qed

text \<open>
  A candidate whose number is the name of an inherited property of the table is
  loaded, with that property as its animal, and is not an error; its repetition is
  counted as a duplicate by its number, though no record has that number as entity
  id. The array that is saved is no history of the store any more.
\<close>

lemma inherited_property_is_loaded:
  "lo_result (loadMassiveHistoricalData codeUnitCompare storageSix GUACHARO 5 inheritedBatch)
     = \<lparr> lr_success = True, lr_loaded = 1, lr_duplicates = 1, lr_errors = 0 \<rparr>
   \<and> map_option (map le_animal \<circ> take 1)
        (savedHistory (loadMassiveHistoricalData codeUnitCompare storageSix GUACHARO 5 inheritedBatch))
      = Some [InheritedProperty (js ''constructor'')]
   \<and> \<not> spec_loadMatches
          (savedRecords (loadMassiveHistoricalData codeUnitCompare storageSix GUACHARO 5 inheritedBatch))
          (js ''2024-01-10'') (js ''15:00'') (js ''constructor'')
   \<and> storageAfterLoad storageSix GUACHARO
        (loadMassiveHistoricalData codeUnitCompare storageSix GUACHARO 5 inheritedBatch) = None"
proof -
  have n: "\<not> spec_loadMatches (loadedInherited # map asLoaded storedSorted)
             (js ''2024-01-10'') (js ''15:00'') (js ''constructor'')"
    by (simp add: spec_loadMatches_def entityIdOf_def loadedInherited_def storedSorted_def
        entry_def asLoaded_def leon_def toro_def mkAnimal_def js_def)
  have a: "asStored loadedInherited = None"
    by (simp add: asStored_def loadedInherited_def)
  show ?thesis
    unfolding loadMassiveHistoricalData_inheritedBatch
    using n a by (simp add: savedRecords_def storageAfterLoad_def loadedInherited_def)
qed
section \<open>The resolver\<close>

text \<open>The stages of the resolver on the four tokens, each evaluated on the catalog.\<close>

lemma trim_tokens:
  "trim (js ''05'') = js ''05''"
  "trim (js ''Le'' @ [243] @ js ''n'') = js ''Le'' @ [243] @ js ''n''"
  "trim (js ''leon'') = js ''leon''"
  "trim (js ''LE'' @ [211] @ js ''N'') = js ''LE'' @ [211] @ js ''N''"
  by (simp_all add: trim_def isWhiteSpace_def js_def)

lemma numberMatch_tokens:
  "numberMatch (js ''05'') = Some (js ''05'')"
  "numberMatch (js ''Le'' @ [243] @ js ''n'') = None"
  "numberMatch (js ''leon'') = None"
  "numberMatch (js ''LE'' @ [211] @ js ''N'') = None"
  by (simp_all add: numberMatch_def isDigit_def isWordChar_def js_def)

lemma byNumber_05:
  "find (\<lambda>a. animal_number a = padStart2 (js ''05'') \<or> animal_id a = padStart2 (js ''05''))
     ANIMALS = Some leon"
  by (simp add: padStart2_def ANIMALS_def animalMap_def mkAnimal_def js_def leon_def)

lemma toLowerCase_tokens:
  "toLowerCase (js ''Le'' @ [243] @ js ''n'') = js ''le'' @ [243] @ js ''n''"
  "toLowerCase (js ''leon'') = js ''leon''"
  "toLowerCase (js ''LE'' @ [211] @ js ''N'') = js ''le'' @ [243] @ js ''n''"
  by (simp_all add: toLowerCase_def js_def)

lemma exactMatch_leon_accent:
  "find (\<lambda>a. toLowerCase (animal_name a) = js ''le'' @ [243] @ js ''n'') ANIMALS = Some leon"
  apply (simp only: ANIMALS_def animalMap_def list.map snd_conv find.simps)
  apply (simp add: toLowerCase_def mkAnimal_def js_def leon_def)
  done

lemma exactMatch_leon_plain:
  "find (\<lambda>a. toLowerCase (animal_name a) = js ''leon'') ANIMALS = None"
  apply (simp only: ANIMALS_def animalMap_def list.map snd_conv find.simps)
  apply (simp add: toLowerCase_def mkAnimal_def js_def)
  done

lemma normalizeName_leon: "normalizeName (js ''leon'') = js ''leon''"
  by (simp add: normalizeName_def normalizeNFD_def nfdTable_def toLowerCase_def js_def)

lemma normalizedExact_leon:
  "find (\<lambda>a. normalizeName (animal_name a) = js ''leon'') ANIMALS = Some leon"
  apply (simp only: ANIMALS_def animalMap_def list.map snd_conv find.simps)
  apply (simp add: normalizeName_def normalizeNFD_def nfdTable_def toLowerCase_def
      mkAnimal_def js_def leon_def)
  done

lemma resolve_05: "findAnimalByNameOrNumber ANIMALS (js ''05'') = Some leon"
  unfolding findAnimalByNameOrNumber_def Let_def trim_tokens numberMatch_tokens
  by (simp add: byNumber_05) (simp add: js_def)

lemma resolve_leon_accent:
  "findAnimalByNameOrNumber ANIMALS (js ''Le'' @ [243] @ js ''n'') = Some leon"
  unfolding findAnimalByNameOrNumber_def Let_def trim_tokens numberMatch_tokens
    toLowerCase_tokens exactMatch_leon_accent
  by (simp add: js_def)

lemma resolve_leon_upper:
  "findAnimalByNameOrNumber ANIMALS (js ''LE'' @ [211] @ js ''N'') = Some leon"
  unfolding findAnimalByNameOrNumber_def Let_def trim_tokens numberMatch_tokens
    toLowerCase_tokens exactMatch_leon_accent
  by (simp add: js_def)

lemma resolve_leon_plain: "findAnimalByNameOrNumber ANIMALS (js ''leon'') = Some leon"
  unfolding findAnimalByNameOrNumber_def Let_def trim_tokens numberMatch_tokens
    toLowerCase_tokens exactMatch_leon_plain normalizeName_leon normalizedExact_leon
  by (simp add: js_def)

text \<open>
  C8. The resolver is a function of the token and the catalog alone. On the catalog
  the token "05" resolves to the entity with code "05" (Leon), by \<open>findAnimalByNumber\<close>
  of the store as well, and the three spellings of Leon (with the accent, plain
  lower case, upper case with the accent) all resolve to that same entity.
\<close>

theorem resolver_examples:
  "findAnimalByNameOrNumber ANIMALS (js ''05'') = Some leon
   \<and> animal_number leon = js ''05''
   \<and> findAnimalByNumber (js ''05'') = Some (TableAnimal leon)
   \<and> findAnimalByNameOrNumber ANIMALS (js ''Le'' @ [243] @ js ''n'') = Some leon
   \<and> findAnimalByNameOrNumber ANIMALS (js ''leon'') = Some leon
   \<and> findAnimalByNameOrNumber ANIMALS (js ''LE'' @ [211] @ js ''N'') = Some leon"
  using resolve_05 resolve_leon_accent resolve_leon_plain resolve_leon_upper findAnimalByNumber_05
  by (simp add: leon_def mkAnimal_def)

section \<open>The extractor\<close>











end
